theory Spec2Isabelle
  imports Complex_Main
begin

section \<open>Numbers and vectors\<close>

text \<open>
  The renderer computes with JavaScript numbers and GLSL floats. They are modelled as
  exact reals: every property below is a property of the arithmetic the code writes
  down, not of its IEEE rounding. A GLSL \<open>vec2\<close> is a pair, a \<open>vec3\<close> a triple.
\<close>

type_synonym vec2 = "real \<times> real"
type_synonym vec3 = "real \<times> real \<times> real"

definition add2 :: "vec2 \<Rightarrow> vec2 \<Rightarrow> vec2" where
  "add2 a b = (fst a + fst b, snd a + snd b)"

definition sub2 :: "vec2 \<Rightarrow> vec2 \<Rightarrow> vec2" where
  "sub2 a b = (fst a - fst b, snd a - snd b)"

definition scale2 :: "vec2 \<Rightarrow> real \<Rightarrow> vec2" where
  "scale2 a k = (fst a * k, snd a * k)"

definition add3 :: "vec3 \<Rightarrow> vec3 \<Rightarrow> vec3" where
  "add3 a b = (fst a + fst b, fst (snd a) + fst (snd b), snd (snd a) + snd (snd b))"

definition scale3 :: "vec3 \<Rightarrow> real \<Rightarrow> vec3" where
  "scale3 a k = (fst a * k, fst (snd a) * k, snd (snd a) * k)"

definition splat3 :: "real \<Rightarrow> vec3" where
  \<comment> \<open>GLSL \<open>vec3(s)\<close>\<close>
  "splat3 s = (s, s, s)"

definition dot3 :: "vec3 \<Rightarrow> vec3 \<Rightarrow> real" where
  "dot3 a b = fst a * fst b + fst (snd a) * fst (snd b) + snd (snd a) * snd (snd b)"

definition length3 :: "vec3 \<Rightarrow> real" where
  "length3 a = sqrt (dot3 a a)"

definition hypot :: "real \<Rightarrow> real \<Rightarrow> real" where
  \<comment> \<open>\<open>Math.hypot(a, b)\<close>\<close>
  "hypot a b = sqrt (a ^ 2 + b ^ 2)"

definition distance2 :: "vec2 \<Rightarrow> vec2 \<Rightarrow> real" where
  \<comment> \<open>GLSL \<open>distance(p, q)\<close> on \<open>vec2\<close>\<close>
  "distance2 p q = hypot (fst p - fst q) (snd p - snd q)"

definition mix :: "real \<Rightarrow> real \<Rightarrow> real \<Rightarrow> real" where
  \<comment> \<open>GLSL \<open>mix(x, y, a) = x * (1 - a) + y * a\<close>\<close>
  "mix x y a = x * (1 - a) + y * a"

definition mix2 :: "vec2 \<Rightarrow> vec2 \<Rightarrow> real \<Rightarrow> vec2" where
  "mix2 p q a = (mix (fst p) (fst q) a, mix (snd p) (snd q) a)"

definition mix3 :: "vec3 \<Rightarrow> vec3 \<Rightarrow> real \<Rightarrow> vec3" where
  "mix3 p q a =
     (mix (fst p) (fst q) a, mix (fst (snd p)) (fst (snd q)) a, mix (snd (snd p)) (snd (snd q)) a)"

definition clamp :: "real \<Rightarrow> real \<Rightarrow> real \<Rightarrow> real" where
  \<comment> \<open>GLSL \<open>clamp(x, lo, hi) = min(max(x, lo), hi)\<close>\<close>
  "clamp x lo hi = min (max x lo) hi"

definition smoothstep :: "real \<Rightarrow> real \<Rightarrow> real \<Rightarrow> real" where
  \<comment> \<open>GLSL \<open>smoothstep(edge0, edge1, x)\<close>: Hermite interpolation of the clamped ramp.
      The shaders call it with \<open>edge0 > edge1\<close>, where it falls from 1 at \<open>edge1\<close>
      to 0 at \<open>edge0\<close>.\<close>
  "smoothstep edge0 edge1 x =
     (let t = clamp ((x - edge0) / (edge1 - edge0)) 0 1 in t * t * (3 - 2 * t))"

definition glsl_mod :: "real \<Rightarrow> real \<Rightarrow> real" where
  \<comment> \<open>GLSL \<open>mod(x, y) = x - y * floor(x / y)\<close>\<close>
  "glsl_mod x y = x - y * of_int \<lfloor>x / y\<rfloor>"


section \<open>Hand state and the gesture classifier\<close>

text \<open>
  The detection loop keeps four mutable cells (\<open>handPos\<close>, \<open>prevHandPos\<close>, \<open>handVel\<close>,
  \<open>gesture\<close>); \<open>predict\<close> is their only writer. The gesture code is the number the
  code stores: 0 none, 1 fist, 2 open hand, 4 pinch (3 is never written).
\<close>

record landmark =
  lm_x :: real
  lm_y :: real
  lm_z :: real

text \<open>
  A detected hand is the pose estimator's array of 21 landmarks, read by index
  (\<open>lm[9]\<close>); it is a function of the index here. The classifier reads the indices
  0, 4, 8, 9, 12 and, in the line-mesh variant, 13 and 16.
\<close>

type_synonym hand = "nat \<Rightarrow> landmark"

record hand_state =
  handPos :: vec2
  prevHandPos :: vec2
  handVel :: vec2
  gesture :: nat

definition NONE :: nat where "NONE = 0"
definition FIST :: nat where "FIST = 1"
definition OPEN :: nat where "OPEN = 2"
definition PINCH :: nat where "PINCH = 4"

definition initial_hand_state :: hand_state where
  \<comment> \<open>the \<open>useRef\<close> initial values\<close>
  "initial_hand_state =
     \<lparr>handPos = (0.5, 0.5), prevHandPos = (0.5, 0.5), handVel = (0, 0), gesture = NONE\<rparr>"

definition pinchDist :: "hand \<Rightarrow> real" where
  "pinchDist lm = hypot (lm_x (lm 4) - lm_x (lm 8)) (lm_y (lm 4) - lm_y (lm 8))"

definition isFist_lines :: "hand \<Rightarrow> bool" where
  \<comment> \<open>line-mesh variant: middle and ring finger curled, factor 0.85\<close>
  "isFist_lines lm =
     (let wrist = lm 0; middleTip = lm 12; middleMcp = lm 9; ringTip = lm 16; ringMcp = lm 13;
          distMiddleTip = hypot (lm_x middleTip - lm_x wrist) (lm_y middleTip - lm_y wrist);
          distMiddleBase = hypot (lm_x middleMcp - lm_x wrist) (lm_y middleMcp - lm_y wrist);
          distRingTip = hypot (lm_x ringTip - lm_x wrist) (lm_y ringTip - lm_y wrist);
          distRingBase = hypot (lm_x ringMcp - lm_x wrist) (lm_y ringMcp - lm_y wrist)
      in distMiddleTip < distMiddleBase * 0.85 \<and> distRingTip < distRingBase * 0.85)"

definition isFist_scatter :: "hand \<Rightarrow> bool" where
  \<comment> \<open>point-cloud variant: middle finger only, factor 0.8\<close>
  "isFist_scatter lm =
     (let wrist = lm 0; middleTip = lm 12; middleMcp = lm 9;
          distTip = hypot (lm_x middleTip - lm_x wrist) (lm_y middleTip - lm_y wrist);
          distBase = hypot (lm_x middleMcp - lm_x wrist) (lm_y middleMcp - lm_y wrist)
      in distTip < distBase * 0.8)"

definition classify_lines :: "hand \<Rightarrow> nat" where
  \<comment> \<open>line-mesh variant: the fist test comes first\<close>
  "classify_lines lm =
     (if isFist_lines lm then FIST else if pinchDist lm < 0.05 then PINCH else OPEN)"

definition classify_scatter :: "hand \<Rightarrow> nat" where
  \<comment> \<open>point-cloud variant: the pinch test comes first\<close>
  "classify_scatter lm =
     (if pinchDist lm < 0.05 then PINCH else if isFist_scatter lm then FIST else OPEN)"

definition track :: "hand \<Rightarrow> hand_state \<Rightarrow> nat \<Rightarrow> hand_state" where
  \<comment> \<open>the branch of \<open>predict\<close> taken when a hand is found, the same in both variants but
      for the gesture written last\<close>
  "track lm st g =
     (let targetX = 1 - lm_x (lm 9);
          targetY = lm_y (lm 9);
          dx = targetX - fst (prevHandPos st);
          dy = targetY - snd (prevHandPos st)
      in \<lparr>handPos = (fst (handPos st) + (targetX - fst (handPos st)) * 0.3,
                     snd (handPos st) + (targetY - snd (handPos st)) * 0.3),
          prevHandPos = (targetX, targetY),
          handVel = (fst (handVel st) * 0.8 + dx * 0.2, snd (handVel st) * 0.8 + dy * 0.2),
          gesture = g\<rparr>)"

definition lost :: "hand_state \<Rightarrow> hand_state" where
  \<comment> \<open>the branch of \<open>predict\<close> taken when no hand is found\<close>
  "lost st =
     st\<lparr>gesture := NONE, handVel := (fst (handVel st) * 0.9, snd (handVel st) * 0.9)\<rparr>"

text \<open>
  One detection cycle. The argument is \<open>results.landmarks\<close>: absent (\<open>None\<close>), or the
  list of detected hands, of which only the first is used.
\<close>

definition predict_lines :: "hand list option \<Rightarrow> hand_state \<Rightarrow> hand_state" where
  "predict_lines landmarks st =
     (case landmarks of
        Some (lm # rest) \<Rightarrow> track lm st (classify_lines lm)
      | _ \<Rightarrow> lost st)"

definition predict_scatter :: "hand list option \<Rightarrow> hand_state \<Rightarrow> hand_state" where
  "predict_scatter landmarks st =
     (case landmarks of
        Some (lm # rest) \<Rightarrow> track lm st (classify_scatter lm)
      | _ \<Rightarrow> lost st)"

fun cycles_lines :: "hand list option list \<Rightarrow> hand_state \<Rightarrow> hand_state" where
  "cycles_lines [] st = st"
| "cycles_lines (r # rs) st = cycles_lines rs (predict_lines r st)"

fun cycles_scatter :: "hand list option list \<Rightarrow> hand_state \<Rightarrow> hand_state" where
  "cycles_scatter [] st = st"
| "cycles_scatter (r # rs) st = cycles_scatter rs (predict_scatter r st)"

definition no_hand :: "hand list option \<Rightarrow> bool" where
  \<comment> \<open>the test \<open>results.landmarks && results.landmarks.length > 0\<close> fails\<close>
  "no_hand landmarks = (case landmarks of Some (lm # rest) \<Rightarrow> False | _ \<Rightarrow> True)"

definition raw_target :: "hand \<Rightarrow> vec2" where
  \<comment> \<open>\<open>(targetX, targetY)\<close>: landmark 9, mirrored in x\<close>
  "raw_target lm = (1 - lm_x (lm 9), lm_y (lm 9))"

definition in_unit_square :: "vec2 \<Rightarrow> bool" where
  "in_unit_square p = (0 \<le> fst p \<and> fst p \<le> 1 \<and> 0 \<le> snd p \<and> snd p \<le> 1)"

definition target_in_unit_square :: "hand list option \<Rightarrow> bool" where
  "target_in_unit_square landmarks =
     (case landmarks of Some (lm # rest) \<Rightarrow> in_unit_square (raw_target lm) | _ \<Rightarrow> True)"

definition magnitude :: "vec2 \<Rightarrow> real" where
  "magnitude v = hypot (fst v) (snd v)"


section \<open>The mesh builder\<close>

text \<open>
  \<open>initWebGL\<close> derives the grid from the particle count and the canvas size. A division
  whose divisor is 0 gives \<open>Infinity\<close> or \<open>NaN\<close> in JavaScript; \<open>js_div\<close> returns
  \<open>None\<close> for such a result, so that it is never mistaken for a number.
\<close>

definition js_div :: "real \<Rightarrow> real \<Rightarrow> real option" where
  "js_div a b = (if b = 0 then None else Some (a / b))"

record mesh =
  rows :: int
  cols :: int
  uvData :: "(real option \<times> real option) list"
  indexData :: "nat list"

text \<open>
  The two nested loops run \<open>i\<close> over the columns and \<open>j\<close> over the rows and write
  vertex \<open>ptr = i * rows + j\<close>; the vertex list is in that order. The mesh is \<open>None\<close>
  when \<open>aspect\<close>, \<open>rows\<close> or \<open>cols\<close> is not a finite number.
\<close>

definition initWebGL_mesh :: "nat \<Rightarrow> nat \<Rightarrow> nat \<Rightarrow> mesh option" where
  "initWebGL_mesh count canvas_width canvas_height =
     (case js_div (real canvas_width) (real canvas_height) of
        None \<Rightarrow> None
      | Some aspect \<Rightarrow>
          (case js_div (real count) aspect of
             None \<Rightarrow> None
           | Some q \<Rightarrow>
               (let rows = \<lceil>sqrt q\<rceil> in
                case js_div (real count) (of_int rows) of
                  None \<Rightarrow> None
                | Some c \<Rightarrow>
                    (let cols = \<lceil>c\<rceil> in
                     Some \<lparr>rows = rows, cols = cols,
                           uvData = concat (map (\<lambda>i. map (\<lambda>j.
                                      (js_div (real i) (of_int cols - 1),
                                       js_div (real j) (of_int rows - 1)))
                                      [0..<nat rows]) [0..<nat cols]),
                           indexData = [0..<nat rows * nat cols]\<rparr>))))"


text \<open>The two grid dimensions on their own, as \<open>initWebGL\<close> computes them.\<close>

definition grid_rows :: "nat \<Rightarrow> nat \<Rightarrow> nat \<Rightarrow> int" where
  "grid_rows count w h = \<lceil>sqrt (real count / (real w / real h))\<rceil>"

definition grid_cols :: "nat \<Rightarrow> nat \<Rightarrow> nat \<Rightarrow> int" where
  "grid_cols count w h = \<lceil>real count / of_int (grid_rows count w h)\<rceil>"


section \<open>The reveal mask\<close>

text \<open>
  The mask is an offscreen canvas; only its red channel is read by the shader. A pixel
  is addressed by column and row and holds a value in \<open>[0, 1]\<close> (the 8-bit channel
  divided by 255, not quantised here). The canvas starts 300 by 150 with red 0
  everywhere; from the first resize on it is opaque black.

  The browser's drawing primitives are not part of the repository. They are modelled
  after the Canvas 2D and Compositing definitions: a radial gradient from white at
  opacity 0.2 in the centre to white at opacity 0 on the circle of radius 80, filled
  into that circle, composited with blend mode \<open>lighten\<close> onto an opaque backdrop:
  \<open>result = (1 - alpha) * backdrop + alpha * max backdrop source\<close>.
\<close>

record mask =
  mask_width :: nat
  mask_height :: nat
  mask_px :: "nat \<Rightarrow> nat \<Rightarrow> real"

definition blank_mask :: "nat \<Rightarrow> nat \<Rightarrow> mask" where
  "blank_mask w h = \<lparr>mask_width = w, mask_height = h, mask_px = (\<lambda>i j. 0)\<rparr>"

definition initial_mask :: mask where
  "initial_mask = blank_mask 300 150"

definition lighten :: "real \<Rightarrow> real \<Rightarrow> real \<Rightarrow> real" where
  "lighten backdrop source alpha = (1 - alpha) * backdrop + alpha * max backdrop source"

definition brush_alpha :: "real \<Rightarrow> real \<Rightarrow> real" where
  \<comment> \<open>opacity of the gradient at distance \<open>d\<close> from the centre, inside the filled circle\<close>
  "brush_alpha radius d = (if d \<le> radius then 0.2 * (1 - d / radius) else 0)"

definition resize_mask :: "nat \<Rightarrow> nat \<Rightarrow> mask \<Rightarrow> mask" where
  \<comment> \<open>setting a canvas's width or height clears it; it is then filled black\<close>
  "resize_mask displayWidth displayHeight m =
     (if mask_width m \<noteq> displayWidth \<or> mask_height m \<noteq> displayHeight
      then blank_mask displayWidth displayHeight else m)"

definition paint_stroke :: "nat \<Rightarrow> nat \<Rightarrow> vec2 \<Rightarrow> mask \<Rightarrow> mask" where
  "paint_stroke displayWidth displayHeight pos m =
     (let x = fst pos * real displayWidth;
          y = (1 - snd pos) * real displayHeight;
          radius = 80
      in m\<lparr>mask_px := (\<lambda>i j.
             if i < mask_width m \<and> j < mask_height m
             then lighten (mask_px m i j) 1
                    (brush_alpha radius (distance2 (real i + 0.5, real j + 0.5) (x, y)))
             else mask_px m i j)\<rparr>)"

definition render_mask :: "nat \<Rightarrow> nat \<Rightarrow> hand_state \<Rightarrow> mask \<Rightarrow> mask" where
  \<comment> \<open>steps 1 and 2 of \<open>render\<close>: resize, then paint while the gesture is the fist\<close>
  "render_mask displayWidth displayHeight hs m =
     (let m1 = resize_mask displayWidth displayHeight m
      in if gesture hs = 1 then paint_stroke displayWidth displayHeight (handPos hs) m1 else m1)"

fun render_masks :: "(nat \<times> nat \<times> hand_state) list \<Rightarrow> mask \<Rightarrow> mask" where
  "render_masks [] m = m"
| "render_masks ((w, h, hs) # fs) m = render_masks fs (render_mask w h hs m)"

definition same_size :: "mask \<Rightarrow> nat \<times> nat \<times> hand_state \<Rightarrow> bool" where
  \<comment> \<open>a frame that finds the display at the size of the mask, so that nothing is reset\<close>
  "same_size m f = (fst f = mask_width m \<and> fst (snd f) = mask_height m)"


section \<open>The vertex shaders\<close>

text \<open>
  The uniforms of one draw call. A sampler is the function from a texture coordinate
  to the sample the shader reads there: the colour of the source frame, and the red
  channel of the mask. \<open>u_pointSize\<close> is read by the point-cloud shader only.
\<close>

record uniforms =
  u_time :: real
  u_resolution :: vec2
  u_hand :: vec2
  u_handVel :: vec2
  u_gesture :: real
  u_texture :: "vec2 \<Rightarrow> vec3"
  u_mask :: "vec2 \<Rightarrow> real"
  u_pointSize :: real
  u_aspect :: real
  u_brightness :: real

record vs_out =
  gl_Position :: vec3  \<comment> \<open>x, y, z; w is the constant 1\<close>
  v_color :: vec3
  v_depth :: real
  v_isQuantum :: real

record vs_out_points = vs_out +
  gl_PointSize :: real

definition texCoord :: "vec2 \<Rightarrow> vec2" where
  "texCoord a_uv = (fst a_uv, 1 - snd a_uv)"

definition base_pos :: "uniforms \<Rightarrow> vec2 \<Rightarrow> vec2" where
  \<comment> \<open>\<open>pos.xy\<close> as first assigned; \<open>pos.z\<close> starts at 0\<close>
  "base_pos U a_uv = ((fst a_uv - 0.5) * 2 * u_aspect U, (snd a_uv - 0.5) * 2)"

definition handPos2D :: "uniforms \<Rightarrow> vec2" where
  "handPos2D U = (fst (u_hand U) * u_aspect U, 1 - snd (u_hand U))"

definition vertex_dist :: "uniforms \<Rightarrow> vec2 \<Rightarrow> real" where
  "vertex_dist U a_uv = distance2 (base_pos U a_uv) (handPos2D U)"

definition baseColor :: "real \<Rightarrow> uniforms \<Rightarrow> vec2 \<Rightarrow> vec3" where
  \<comment> \<open>step 1 of both shaders; \<open>boost\<close> is 1.5 for the line mesh and 1.2 for the points\<close>
  "baseColor boost U a_uv =
     (let texColor = u_texture U (texCoord a_uv);
          maskVal = u_mask U (texCoord a_uv);
          gray = dot3 texColor (0.299, 0.587, 0.114);
          bwColor = splat3 (gray * 0.8)
      in if length3 texColor < 0.01 then splat3 0.1
         else mix3 bwColor (scale3 texColor boost) maskVal)"

definition isQuantum :: "real \<Rightarrow> real" where
  "isQuantum a_index = (if glsl_mod a_index 29 < 1 then 1 else 0)"

text \<open>The line-mesh shader (\<open>WeaveCanvas.tsx\<close>): open hand waves, fist presses, pinch ripples.\<close>

definition warp_lines :: "uniforms \<Rightarrow> vec2 \<Rightarrow> vec2 \<times> real \<times> vec3" where
  "warp_lines U a_uv =
     (let maskVal = u_mask U (texCoord a_uv);
          color = baseColor 1.5 U a_uv;
          pos = base_pos U a_uv;
          hand2D = handPos2D U;
          dist = vertex_dist U a_uv
      in if u_gesture U > 1.5 \<and> u_gesture U < 2.5 \<and> maskVal > 0.1 then
           (let radius = 0.65 in
            if dist < radius then
              (let influence = smoothstep radius 0 dist;
                   pulled = mix2 pos (add2 hand2D (scale2 (sub2 pos hand2D) 0.7)) (influence * 0.3)
               in (add2 pulled (scale2 (u_handVel U) (influence * 12)),
                   0 + sin (dist * 12 - u_time U * 6) * influence * 1.2,
                   add3 color (scale3 (0, 0.4, 0.6) influence)))
            else (pos, 0, color))
         else if u_gesture U > 0.5 \<and> u_gesture U < 1.5 then
           (if dist < 0.25 then (pos, 0 - (0.25 - dist) * 0.6, color) else (pos, 0, color))
         else if u_gesture U > 3.5 then
           (if dist < 0.3 then
              (let strength = (0.3 - dist) / 0.3;
                   tension = sin (dist * 60 - u_time U * 12) * strength * 0.1
               in (mix2 pos hand2D (strength * 0.05), 0 + tension,
                   add3 color (scale3 (0.3, 0, 0.3) strength)))
            else (pos, 0, color))
         else (pos, 0, color))"

definition VERTEX_SHADER_lines :: "uniforms \<Rightarrow> vec2 \<Rightarrow> real \<Rightarrow> vs_out" where
  "VERTEX_SHADER_lines U a_uv a_index =
     (case warp_lines U a_uv of
        (pos, z, color) \<Rightarrow>
          \<lparr>gl_Position = (fst pos, snd pos, z), v_color = color, v_depth = z,
           v_isQuantum = isQuantum a_index\<rparr>)"

text \<open>The point-cloud shader: pinch weaves, fist presses, open hand ripples.\<close>

definition warp_scatter :: "uniforms \<Rightarrow> vec2 \<Rightarrow> vec2 \<times> real \<times> vec3" where
  "warp_scatter U a_uv =
     (let maskVal = u_mask U (texCoord a_uv);
          color = baseColor 1.2 U a_uv;
          pos = base_pos U a_uv;
          hand2D = handPos2D U;
          dist = vertex_dist U a_uv
      in if u_gesture U > 3.5 \<and> maskVal > 0.1 then
           (let radius = 0.5 in
            if dist < radius then
              (let influence = smoothstep radius 0 dist;
                   pulled = mix2 pos (add2 hand2D (scale2 (sub2 pos hand2D) 0.6)) (influence * 0.4);
                   weaveFreq = 150;
                   weave = sin (fst a_uv * weaveFreq) * cos (snd a_uv * weaveFreq)
               in (add2 pulled (scale2 (u_handVel U) (influence * 3)),
                   0 + weave * 2,
                   add3 color (scale3 (0.2, 0.1, 0.3) influence)))
            else (pos, 0, color))
         else if u_gesture U > 0.5 \<and> u_gesture U < 1.5 then
           (if dist < 0.2 then (pos, 0 - (0.2 - dist) * 0.5, color) else (pos, 0, color))
         else if u_gesture U > 1.5 \<and> u_gesture U < 2.5 then
           (if dist < 0.4 then
              (let strength = (0.4 - dist) / 0.4;
                   ripple = sin (dist * 40 - u_time U * 8) * strength * 0.15
               in (pos, 0 + ripple, color))
            else (pos, 0, color))
         else (pos, 0, color))"

definition pointSize :: "uniforms \<Rightarrow> vec2 \<Rightarrow> real" where
  "pointSize U a_uv =
     (let maskVal = u_mask U (texCoord a_uv);
          pSize = u_pointSize U
      in if maskVal > 0.5
         then (if u_gesture U > 3.5 \<and> vertex_dist U a_uv < 0.5 then pSize * 1.5 * 0.8 else pSize * 1.5)
         else pSize)"

definition VERTEX_SHADER_scatter :: "uniforms \<Rightarrow> vec2 \<Rightarrow> real \<Rightarrow> vs_out_points" where
  "VERTEX_SHADER_scatter U a_uv a_index =
     (case warp_scatter U a_uv of
        (pos, z, color) \<Rightarrow>
          \<lparr>gl_Position = (fst pos, snd pos, z), v_color = color, v_depth = z,
           v_isQuantum = isQuantum a_index, gl_PointSize = pointSize U a_uv\<rparr>)"

definition gray_level :: "uniforms \<Rightarrow> vec2 \<Rightarrow> real" where
  \<comment> \<open>the luma of the source colour, dimmed; the flat placeholder where no frame is there\<close>
  "gray_level U a_uv =
     (let texColor = u_texture U (texCoord a_uv)
      in if length3 texColor < 0.01 then 0.1 else dot3 texColor (0.299, 0.587, 0.114) * 0.8)"


section \<open>The frame orchestrator\<close>

datatype color_scheme = Cyber | Warm | Matrix

record config =
  particleCount :: nat
  connectionDistance :: real
  speed :: real
  interactive :: bool
  showGrid :: bool
  colorScheme :: color_scheme
  brightness :: real
  staticImage :: "string option"

definition default_config :: config where
  \<comment> \<open>the initial configuration of \<open>App\<close>\<close>
  "default_config =
     \<lparr>particleCount = 15000, connectionDistance = 45, speed = 0.2, interactive = True,
      showGrid = False, colorScheme = Cyber, brightness = 1.0, staticImage = None\<rparr>"

text \<open>
  The uniforms \<open>render\<close> uploads for one frame: \<open>now\<close> is the frame's timestamp and
  \<open>startTime\<close> the mount time, both in milliseconds; the two samplers stand for the
  uploaded source frame and mask. The line-mesh variant uploads no \<open>u_pointSize\<close>,
  which its shader never reads. For a display of height 0 the quotient \<open>u_aspect\<close> is
  not a number in JavaScript; nothing below is stated about the aspect ratio of such a
  frame.
\<close>

definition render_uniforms ::
  "config \<Rightarrow> real \<Rightarrow> real \<Rightarrow> nat \<Rightarrow> nat \<Rightarrow> hand_state \<Rightarrow> (vec2 \<Rightarrow> vec3) \<Rightarrow> (vec2 \<Rightarrow> real) \<Rightarrow> uniforms" where
  "render_uniforms cfg now startTime displayWidth displayHeight hs source maskTex =
     (let time = (now - startTime) / 1000
      in \<lparr>u_time = time,
          u_resolution = (real displayWidth, real displayHeight),
          u_hand = handPos hs,
          u_handVel = (fst (handVel hs), - snd (handVel hs)),
          u_gesture = real (gesture hs),
          u_texture = source,
          u_mask = maskTex,
          u_pointSize = max 2 (real displayWidth / 200),
          u_aspect = real displayWidth / real displayHeight,
          u_brightness = brightness cfg\<rparr>)"

text \<open>
  A session is a sequence of events of the two loops: a detection cycle with its
  result, or a rendered frame with the display size it finds. The detection loop writes
  the hand state, the render loop the mask.
\<close>

datatype event = Detect "hand list option" | Frame nat nat

record app =
  app_hand :: hand_state
  app_mask :: mask

definition initial_app :: app where
  "initial_app = \<lparr>app_hand = initial_hand_state, app_mask = initial_mask\<rparr>"

definition step_lines :: "event \<Rightarrow> app \<Rightarrow> app" where
  "step_lines e a =
     (case e of
        Detect r \<Rightarrow> a\<lparr>app_hand := predict_lines r (app_hand a)\<rparr>
      | Frame w h \<Rightarrow> a\<lparr>app_mask := render_mask w h (app_hand a) (app_mask a)\<rparr>)"

definition step_scatter :: "event \<Rightarrow> app \<Rightarrow> app" where
  "step_scatter e a =
     (case e of
        Detect r \<Rightarrow> a\<lparr>app_hand := predict_scatter r (app_hand a)\<rparr>
      | Frame w h \<Rightarrow> a\<lparr>app_mask := render_mask w h (app_hand a) (app_mask a)\<rparr>)"

fun run_lines :: "event list \<Rightarrow> app \<Rightarrow> app" where
  "run_lines [] a = a"
| "run_lines (e # es) a = run_lines es (step_lines e a)"

fun run_scatter :: "event list \<Rightarrow> app \<Rightarrow> app" where
  "run_scatter [] a = a"
| "run_scatter (e # es) a = run_scatter es (step_scatter e a)"

definition hand_absent :: "event \<Rightarrow> bool" where
  "hand_absent e = (case e of Detect r \<Rightarrow> no_hand r | Frame w h \<Rightarrow> True)"

definition idle :: "app \<Rightarrow> bool" where
  \<comment> \<open>no gesture, and nothing painted\<close>
  "idle a = (gesture (app_hand a) = NONE \<and> (\<forall>i j. mask_px (app_mask a) i j = 0))"


section \<open>Sample inputs\<close>

definition landmark_at :: "real \<Rightarrow> real \<Rightarrow> landmark" where
  "landmark_at a b = \<lparr>lm_x = a, lm_y = b, lm_z = 0\<rparr>"

definition pinching_hand :: hand where
  \<comment> \<open>thumb tip on index tip, middle and ring finger stretched\<close>
  "pinching_hand i =
     (if i = 12 \<or> i = 16 then landmark_at 1 0
      else if i = 9 \<or> i = 13 then landmark_at (1 / 2) 0 else landmark_at 0 0)"

definition curled_pinching_hand :: hand where
  \<comment> \<open>thumb tip on index tip, middle and ring tips on the wrist\<close>
  "curled_pinching_hand i = (if i = 9 \<or> i = 13 then landmark_at 1 0 else landmark_at 0 0)"

definition sample_uniforms :: "real \<Rightarrow> real \<Rightarrow> uniforms" where
  \<comment> \<open>a square display, the hand in its centre, a red source frame, a uniform mask\<close>
  "sample_uniforms g m =
     \<lparr>u_time = 0, u_resolution = (600, 600), u_hand = (0.5, 0.5), u_handVel = (0, 0),
      u_gesture = g, u_texture = (\<lambda>c. (1, 0, 0)), u_mask = (\<lambda>c. m), u_pointSize = 3,
      u_aspect = 1, u_brightness = 1\<rparr>"

definition fist_state :: hand_state where
  \<comment> \<open>a fist held in the centre of the display\<close>
  "fist_state = initial_hand_state\<lparr>gesture := FIST\<rparr>"


section \<open>Facts about the arithmetic\<close>

lemma hypot_zero_right: "hypot a 0 = \<bar>a\<bar>"
  by (simp add: hypot_def)

lemma hypot_scale: "hypot (a * k) (b * k) = \<bar>k\<bar> * hypot a b"
proof -
  have "(a * k)\<^sup>2 + (b * k)\<^sup>2 = k\<^sup>2 * (a\<^sup>2 + b\<^sup>2)"
    by (simp add: power_mult_distrib distrib_left mult.commute)
  then show ?thesis
    by (simp add: hypot_def real_sqrt_mult)
qed

lemma magnitude_scale2: "0 \<le> k \<Longrightarrow> magnitude (scale2 v k) = k * magnitude v"
  by (simp add: magnitude_def scale2_def hypot_scale)

lemma decay_44: "44 \<le> n \<Longrightarrow> (0.9::real) ^ n < 0.01"
proof -
  assume n: "44 \<le> n"
  have "(0.9::real) ^ n \<le> 0.9 ^ 44"
    using n by (intro power_decreasing) simp_all
  also have "(0.9::real) ^ 44 < 0.01"
    by (simp add: power_divide)
  finally show ?thesis .
qed


section \<open>The gesture classifier\<close>

lemma gesture_track: "gesture (track lm st g) = g"
  by (simp add: track_def Let_def)

lemma gesture_lost: "gesture (lost st) = NONE"
  by (simp add: lost_def)

lemma handVel_lost: "handVel (lost st) = scale2 (handVel st) 0.9"
  by (simp add: lost_def scale2_def)

lemma handPos_lost: "handPos (lost st) = handPos st"
  by (simp add: lost_def)

lemma classify_lines_codes: "classify_lines lm \<in> {FIST, OPEN, PINCH}"
  by (simp add: classify_lines_def)

lemma classify_scatter_codes: "classify_scatter lm \<in> {FIST, OPEN, PINCH}"
  by (simp add: classify_scatter_def)

lemma gesture_predict_lines:
  "gesture (predict_lines r st) =
     (case r of Some (lm # rest) \<Rightarrow> classify_lines lm | _ \<Rightarrow> NONE)"
  by (simp add: predict_lines_def gesture_track gesture_lost split: option.splits list.splits)

lemma gesture_predict_scatter:
  "gesture (predict_scatter r st) =
     (case r of Some (lm # rest) \<Rightarrow> classify_scatter lm | _ \<Rightarrow> NONE)"
  by (simp add: predict_scatter_def gesture_track gesture_lost split: option.splits list.splits)

lemma predict_lines_no_hand: "no_hand r \<Longrightarrow> predict_lines r st = lost st"
  by (simp add: predict_lines_def no_hand_def split: option.splits list.splits)

lemma predict_scatter_no_hand: "no_hand r \<Longrightarrow> predict_scatter r st = lost st"
  by (simp add: predict_scatter_def no_hand_def split: option.splits list.splits)

lemma pinching_hand_facts:
  "pinchDist pinching_hand < 0.05"
  "\<not> isFist_lines pinching_hand"
  "\<not> isFist_scatter pinching_hand"
  by (simp_all add: pinchDist_def isFist_lines_def isFist_scatter_def pinching_hand_def
      landmark_at_def hypot_zero_right)

lemma curled_pinching_hand_facts:
  "isFist_lines curled_pinching_hand"
  "pinchDist curled_pinching_hand < 0.05"
  by (simp_all add: pinchDist_def isFist_lines_def curled_pinching_hand_def landmark_at_def
      hypot_zero_right)

text \<open>
  C4. Whatever the detection result, with or without a hand, the gesture code written
  by one detection cycle is one of NONE, FIST, OPEN and PINCH, in both variants; and a
  hand whose thumb tip is closer than 0.05 to its index tip, and that does not satisfy
  the variant's fist condition, is classified PINCH and not FIST.
\<close>

theorem gesture_code_range:
  "gesture (predict_lines r st) \<in> {NONE, FIST, OPEN, PINCH} \<and>
   gesture (predict_scatter r st) \<in> {NONE, FIST, OPEN, PINCH} \<and>
   (pinchDist lm < 0.05 \<and> \<not> isFist_lines lm \<longrightarrow>
      gesture (predict_lines (Some (lm # rest)) st) = PINCH \<and>
      gesture (predict_lines (Some (lm # rest)) st) \<noteq> FIST) \<and>
   (pinchDist lm < 0.05 \<and> \<not> isFist_scatter lm \<longrightarrow>
      gesture (predict_scatter (Some (lm # rest)) st) = PINCH \<and>
      gesture (predict_scatter (Some (lm # rest)) st) \<noteq> FIST)"
proof -
  have a: "gesture (predict_lines r st) \<in> {NONE, FIST, OPEN, PINCH}"
    using classify_lines_codes
    by (auto simp add: gesture_predict_lines split: option.splits list.splits)
  have b: "gesture (predict_scatter r st) \<in> {NONE, FIST, OPEN, PINCH}"
    using classify_scatter_codes
    by (auto simp add: gesture_predict_scatter split: option.splits list.splits)
  have c: "PINCH \<noteq> FIST"
    by (simp add: PINCH_def FIST_def)
  show ?thesis
    using a b c
    by (simp add: gesture_predict_lines gesture_predict_scatter classify_lines_def
        classify_scatter_def)
qed

theorem gesture_code_range_witness:
  "pinchDist pinching_hand < 0.05 \<and> \<not> isFist_lines pinching_hand \<and>
   \<not> isFist_scatter pinching_hand \<and>
   gesture (predict_lines (Some [pinching_hand]) initial_hand_state) = PINCH \<and>
   gesture (predict_scatter (Some [pinching_hand]) initial_hand_state) = PINCH \<and>
   gesture (predict_lines None initial_hand_state) \<in> {NONE, FIST, OPEN, PINCH}"
  using gesture_code_range [of None initial_hand_state pinching_hand "[]"]
        gesture_code_range [of "Some [pinching_hand]" initial_hand_state pinching_hand "[]"]
        pinching_hand_facts
  by simp

text \<open>
  C9. The two variants order the fist and the pinch test oppositely: a hand that
  satisfies the line-mesh fist condition (middle and ring tip within 0.85 of their
  base-to-wrist distances) and the pinch condition (thumb tip to index tip below 0.05)
  is classified FIST by the line-mesh variant and PINCH by the point-cloud variant.
\<close>

theorem priority_differs:
  "isFist_lines lm \<and> pinchDist lm < 0.05 \<longrightarrow>
     gesture (predict_lines (Some (lm # rest)) st) = FIST \<and>
     gesture (predict_scatter (Some (lm # rest)) st) = PINCH"
  by (simp add: gesture_predict_lines gesture_predict_scatter classify_lines_def
      classify_scatter_def)

theorem priority_differs_witness:
  "isFist_lines curled_pinching_hand \<and> pinchDist curled_pinching_hand < 0.05 \<and>
   gesture (predict_lines (Some [curled_pinching_hand]) initial_hand_state) = FIST \<and>
   gesture (predict_scatter (Some [curled_pinching_hand]) initial_hand_state) = PINCH"
  using priority_differs [of curled_pinching_hand "[]" initial_hand_state]
        curled_pinching_hand_facts
  by simp


section \<open>Velocity decay and position smoothing\<close>

lemma handVel_cycles_lines_lost:
  "list_all no_hand rs \<Longrightarrow>
   handVel (cycles_lines rs st) = scale2 (handVel st) (0.9 ^ length rs)"
proof (induction rs arbitrary: st)
  case Nil
  show ?case by (simp add: scale2_def)
next
  case (Cons r rs)
  then show ?case
    by (simp add: predict_lines_no_hand handVel_lost scale2_def mult.assoc)
qed

lemma handVel_cycles_scatter_lost:
  "list_all no_hand rs \<Longrightarrow>
   handVel (cycles_scatter rs st) = scale2 (handVel st) (0.9 ^ length rs)"
proof (induction rs arbitrary: st)
  case Nil
  show ?case by (simp add: scale2_def)
next
  case (Cons r rs)
  then show ?case
    by (simp add: predict_scatter_no_hand handVel_lost scale2_def mult.assoc)
qed

text \<open>
  C6. While no hand is detected, each detection cycle multiplies both velocity
  components by 0.9: after \<open>n\<close> such cycles the velocity is \<open>0.9 ^ n\<close> times the
  initial one, and so is its magnitude; from 44 cycles on a velocity of initial
  magnitude at most 1 has magnitude below 0.01.
\<close>

theorem velocity_decay:
  assumes "list_all no_hand rs"
  shows "handVel (cycles_lines rs st) = scale2 (handVel st) (0.9 ^ length rs) \<and>
         handVel (cycles_scatter rs st) = scale2 (handVel st) (0.9 ^ length rs) \<and>
         magnitude (handVel (cycles_lines rs st)) = 0.9 ^ length rs * magnitude (handVel st) \<and>
         magnitude (handVel (cycles_scatter rs st)) = 0.9 ^ length rs * magnitude (handVel st) \<and>
         (44 \<le> length rs \<and> magnitude (handVel st) \<le> 1 \<longrightarrow>
            magnitude (handVel (cycles_lines rs st)) < 0.01 \<and>
            magnitude (handVel (cycles_scatter rs st)) < 0.01)"
proof -
  have l: "handVel (cycles_lines rs st) = scale2 (handVel st) (0.9 ^ length rs)"
    using assms by (rule handVel_cycles_lines_lost)
  have s: "handVel (cycles_scatter rs st) = scale2 (handVel st) (0.9 ^ length rs)"
    using assms by (rule handVel_cycles_scatter_lost)
  have ml: "magnitude (handVel (cycles_lines rs st)) = 0.9 ^ length rs * magnitude (handVel st)"
    by (simp add: l magnitude_scale2)
  have ms: "magnitude (handVel (cycles_scatter rs st)) = 0.9 ^ length rs * magnitude (handVel st)"
    by (simp add: s magnitude_scale2)
  have small: "0.9 ^ length rs * magnitude (handVel st) < 0.01"
    if h: "44 \<le> length rs \<and> magnitude (handVel st) \<le> 1"
  proof -
    have "0.9 ^ length rs * magnitude (handVel st) \<le> 0.9 ^ length rs * 1"
      using h by (intro mult_left_mono) simp_all
    also have "\<dots> < 0.01"
      using h decay_44 by simp
    finally show ?thesis .
  qed
  show ?thesis
    using l s ml ms small by simp
qed

theorem velocity_decay_witness:
  "list_all no_hand (replicate 44 None) \<and>
   44 \<le> length (replicate 44 (None :: hand list option)) \<and>
   magnitude (handVel (initial_hand_state\<lparr>handVel := (1, 0)\<rparr>)) \<le> 1 \<and>
   magnitude (handVel (cycles_lines (replicate 44 None) (initial_hand_state\<lparr>handVel := (1, 0)\<rparr>)))
     < 0.01 \<and>
   magnitude (handVel (cycles_scatter (replicate 44 None) (initial_hand_state\<lparr>handVel := (1, 0)\<rparr>)))
     < 0.01"
proof -
  have h: "list_all no_hand (replicate 44 None)"
    by (simp add: list_all_iff no_hand_def)
  have m: "magnitude (handVel (initial_hand_state\<lparr>handVel := (1, 0)\<rparr>)) \<le> 1"
    by (simp add: magnitude_def hypot_zero_right)
  have l: "44 \<le> length (replicate 44 (None :: hand list option))"
    by simp
  from velocity_decay [OF h, of "initial_hand_state\<lparr>handVel := (1, 0)\<rparr>"] l m
  have "magnitude (handVel (cycles_lines (replicate 44 None)
          (initial_hand_state\<lparr>handVel := (1, 0)\<rparr>))) < 0.01 \<and>
        magnitude (handVel (cycles_scatter (replicate 44 None)
          (initial_hand_state\<lparr>handVel := (1, 0)\<rparr>))) < 0.01"
    by blast
  with h l m show ?thesis
    by blast
qed

lemma handPos_track:
  "handPos (track lm st g) = add2 (scale2 (handPos st) 0.7) (scale2 (raw_target lm) 0.3)"
  by (simp add: track_def Let_def add2_def scale2_def raw_target_def) argo

lemma convex_unit:
  "in_unit_square p \<Longrightarrow> in_unit_square q \<Longrightarrow>
   in_unit_square (add2 (scale2 p 0.7) (scale2 q 0.3))"
  by (simp add: in_unit_square_def add2_def scale2_def)

lemma handPos_predict_lines:
  "target_in_unit_square r \<Longrightarrow> in_unit_square (handPos st) \<Longrightarrow>
   in_unit_square (handPos (predict_lines r st))"
  by (auto simp add: predict_lines_def target_in_unit_square_def handPos_track handPos_lost
      convex_unit split: option.splits list.splits)

lemma handPos_predict_scatter:
  "target_in_unit_square r \<Longrightarrow> in_unit_square (handPos st) \<Longrightarrow>
   in_unit_square (handPos (predict_scatter r st))"
  by (auto simp add: predict_scatter_def target_in_unit_square_def handPos_track handPos_lost
      convex_unit split: option.splits list.splits)

lemma handPos_cycles_lines:
  "list_all target_in_unit_square rs \<Longrightarrow> in_unit_square (handPos st) \<Longrightarrow>
   in_unit_square (handPos (cycles_lines rs st))"
  by (induction rs arbitrary: st) (simp_all add: handPos_predict_lines)

lemma handPos_cycles_scatter:
  "list_all target_in_unit_square rs \<Longrightarrow> in_unit_square (handPos st) \<Longrightarrow>
   in_unit_square (handPos (cycles_scatter rs st))"
  by (induction rs arbitrary: st) (simp_all add: handPos_predict_scatter)

lemma initial_in_unit: "in_unit_square (handPos initial_hand_state)"
  by (simp add: initial_hand_state_def in_unit_square_def)

text \<open>
  C10. The smoothed hand position starts at (0.5, 0.5). A cycle that finds a hand
  replaces it by the convex combination 0.7 of the old position plus 0.3 of the raw
  target, a cycle that finds none leaves it unchanged; hence after any sequence of
  cycles whose raw targets lie in the unit square the position lies in the unit square.
\<close>

theorem position_in_unit_square:
  "handPos initial_hand_state = (0.5, 0.5) \<and>
   handPos (predict_lines (Some (lm # rest)) st) =
     add2 (scale2 (handPos st) 0.7) (scale2 (raw_target lm) 0.3) \<and>
   handPos (predict_scatter (Some (lm # rest)) st) =
     add2 (scale2 (handPos st) 0.7) (scale2 (raw_target lm) 0.3) \<and>
   (no_hand r \<longrightarrow>
      handPos (predict_lines r st) = handPos st \<and> handPos (predict_scatter r st) = handPos st) \<and>
   (list_all target_in_unit_square rs \<longrightarrow>
      in_unit_square (handPos (cycles_lines rs initial_hand_state)) \<and>
      in_unit_square (handPos (cycles_scatter rs initial_hand_state)))"
proof -
  have a: "handPos initial_hand_state = (0.5, 0.5)"
    by (simp add: initial_hand_state_def)
  have b: "handPos (predict_lines (Some (lm # rest)) st) =
      add2 (scale2 (handPos st) 0.7) (scale2 (raw_target lm) 0.3)"
    by (simp add: predict_lines_def handPos_track)
  have c: "handPos (predict_scatter (Some (lm # rest)) st) =
      add2 (scale2 (handPos st) 0.7) (scale2 (raw_target lm) 0.3)"
    by (simp add: predict_scatter_def handPos_track)
  have d: "no_hand r \<longrightarrow>
      handPos (predict_lines r st) = handPos st \<and> handPos (predict_scatter r st) = handPos st"
    by (simp add: predict_lines_no_hand predict_scatter_no_hand handPos_lost)
  have e: "list_all target_in_unit_square rs \<longrightarrow>
      in_unit_square (handPos (cycles_lines rs initial_hand_state)) \<and>
      in_unit_square (handPos (cycles_scatter rs initial_hand_state))"
    using handPos_cycles_lines [OF _ initial_in_unit] handPos_cycles_scatter [OF _ initial_in_unit]
    by blast
  from a b c d e show ?thesis by blast
qed

theorem position_in_unit_square_witness:
  "no_hand None \<and>
   list_all target_in_unit_square [Some [pinching_hand], None, Some [curled_pinching_hand]] \<and>
   handPos (predict_lines None initial_hand_state) = handPos initial_hand_state \<and>
   in_unit_square (handPos (cycles_lines [Some [pinching_hand], None, Some [curled_pinching_hand]]
     initial_hand_state)) \<and>
   in_unit_square (handPos (cycles_scatter [Some [pinching_hand], None, Some [curled_pinching_hand]]
     initial_hand_state))"
proof -
  have h: "list_all target_in_unit_square [Some [pinching_hand], None, Some [curled_pinching_hand]]"
    by (simp add: target_in_unit_square_def in_unit_square_def raw_target_def pinching_hand_def
        curled_pinching_hand_def landmark_at_def)
  have n: "no_hand None"
    by (simp add: no_hand_def)
  show ?thesis
    using position_in_unit_square [of pinching_hand "[]" initial_hand_state None
        "[Some [pinching_hand], None, Some [curled_pinching_hand]]"] h n
    by simp
qed


section \<open>The mesh builder\<close>

lemma grid_nth:
  "i < C \<Longrightarrow> j < R \<Longrightarrow>
   concat (map (\<lambda>i. map (f i) [0..<R]) [0..<C]) ! (i * R + j) = f i j \<and>
   length (concat (map (\<lambda>i. map (f i) [0..<R]) [0..<C])) = C * R"
proof (induction C)
  case 0
  then show ?case by simp
next
  case (Suc C)
  have len: "length (concat (map (\<lambda>i. map (f i) [0..<R]) [0..<C])) = C * R"
    by (induction C) simp_all
  show ?case
  proof (cases "i < C")
    case True
    then have "i * R + j < C * R"
      using Suc.prems(2)
      by (metis add.commute add_less_cancel_left less_le_trans mult_Suc mult_le_mono1 Suc_leI)
    with True Suc show ?thesis
      by (simp add: nth_append len)
  next
    case False
    with Suc.prems have "i = C" by simp
    with Suc.prems show ?thesis
      by (simp add: nth_append len)
  qed
qed

lemma ceiling_sqrt_pos: "0 < x \<Longrightarrow> 0 < \<lceil>sqrt x\<rceil>"
proof -
  assume "0 < x"
  then have "0 < sqrt x" by simp
  then show ?thesis by (simp only: less_ceiling_iff of_int_0)
qed

lemma ceiling_sqrt_ge_2: "1 < x \<Longrightarrow> 2 \<le> \<lceil>sqrt x\<rceil>"
proof -
  assume "1 < x"
  then have "1 < sqrt x" by simp
  then show ?thesis by (simp add: le_ceiling_iff)
qed

lemma ceiling_sqrt_less: "1 \<le> c \<Longrightarrow> x \<le> (c - 1)\<^sup>2 \<Longrightarrow> \<lceil>sqrt x\<rceil> \<le> \<lceil>c\<rceil> - 1"
proof -
  assume c: "1 \<le> c" and x: "x \<le> (c - 1)\<^sup>2"
  from x have "sqrt x \<le> sqrt ((c - 1)\<^sup>2)"
    by (rule real_sqrt_le_mono)
  also have "\<dots> = c - 1"
    using c by simp
  also have "\<dots> \<le> of_int (\<lceil>c\<rceil> - 1)"
    by (simp add: le_of_int_ceiling)
  finally show ?thesis
    by (simp only: ceiling_le_iff)
qed

lemma ceiling_div_ge_2: "0 < r \<Longrightarrow> of_int r < c \<Longrightarrow> 2 \<le> \<lceil>c / of_int r\<rceil>"
proof -
  assume r: "0 < r" and c: "of_int r < c"
  then have "1 < c / of_int r" by simp
  then show ?thesis by (simp add: le_ceiling_iff)
qed

lemma aspect_quotient_pos: "0 < count \<Longrightarrow> 0 < w \<Longrightarrow> 0 < h \<Longrightarrow> 0 < real count / (real w / real h)"
  by simp

lemma grid_rows_pos: "0 < count \<Longrightarrow> 0 < w \<Longrightarrow> 0 < h \<Longrightarrow> 0 < grid_rows count w h"
  unfolding grid_rows_def by (rule ceiling_sqrt_pos) (rule aspect_quotient_pos)

lemma mesh_some:
  assumes "0 < count" "0 < w" "0 < h"
  shows "initWebGL_mesh count w h =
     Some \<lparr>rows = grid_rows count w h, cols = grid_cols count w h,
           uvData = concat (map (\<lambda>i. map (\<lambda>j.
                      (js_div (real i) (of_int (grid_cols count w h) - 1),
                       js_div (real j) (of_int (grid_rows count w h) - 1)))
                      [0..<nat (grid_rows count w h)]) [0..<nat (grid_cols count w h)]),
           indexData = [0..<nat (grid_rows count w h) * nat (grid_cols count w h)]\<rparr>"
proof -
  have a: "real h \<noteq> 0" using assms by simp
  have b: "real w / real h \<noteq> 0" using assms by simp
  have "grid_rows count w h \<noteq> 0"
    using grid_rows_pos [OF assms] by simp
  then have "real_of_int (grid_rows count w h) \<noteq> 0"
    by simp
  then have c: "real_of_int \<lceil>sqrt (real count / (real w / real h))\<rceil> \<noteq> 0"
    unfolding grid_rows_def .
  show ?thesis
    unfolding initWebGL_mesh_def js_div_def Let_def grid_cols_def grid_rows_def
    by (simp only: a b c if_False option.case)
qed

lemma rows_ge_2:
  assumes "0 < w" "0 < h" "w < count * h"
  shows "2 \<le> grid_rows count w h"
proof -
  have "real w < real count * real h"
    using assms(3) by (metis of_nat_less_iff of_nat_mult)
  then have "1 < real count / (real w / real h)"
    using assms by (simp add: field_simps)
  then show ?thesis
    unfolding grid_rows_def by (rule ceiling_sqrt_ge_2)
qed

lemma cols_ge_2:
  assumes "2 \<le> count" "0 < w" "0 < h" "count * h \<le> (count - 1)\<^sup>2 * w"
  shows "2 \<le> grid_cols count w h"
proof -
  have c1: "real (count - 1) = real count - 1"
    using assms(1) by (simp add: of_nat_diff)
  have "real (count * h) \<le> real ((count - 1)\<^sup>2 * w)"
    using assms(4) by (simp only: of_nat_le_iff)
  then have "real count * real h \<le> (real count - 1)\<^sup>2 * real w"
    by (simp only: of_nat_mult of_nat_power c1)
  then have "real count / (real w / real h) \<le> (real count - 1)\<^sup>2"
    using assms by (simp add: field_simps)
  then have "grid_rows count w h \<le> \<lceil>real count\<rceil> - 1"
    unfolding grid_rows_def using assms(1) by (intro ceiling_sqrt_less) simp_all
  then have lt: "of_int (grid_rows count w h) < real count"
    by simp
  have pos: "0 < grid_rows count w h"
    using assms by (intro grid_rows_pos) simp_all
  show ?thesis
    unfolding grid_cols_def using pos lt by (rule ceiling_div_ge_2)
qed


lemma rows_ge_2_only:
  assumes "0 < w" "0 < h" "2 \<le> grid_rows count w h"
  shows "w < count * h"
proof -
  have "1 < sqrt (real count / (real w / real h))"
    using assms(3) unfolding grid_rows_def by (simp add: le_ceiling_iff)
  then have "1 < real count / (real w / real h)"
    by simp
  then have "real w < real count * real h"
    using assms by (simp add: field_simps)
  then have "real w < real (count * h)"
    by (simp only: of_nat_mult)
  then show ?thesis
    by (simp only: of_nat_less_iff)
qed

lemma cols_ge_2_only:
  assumes "2 \<le> count" "0 < w" "0 < h" "2 \<le> grid_cols count w h"
  shows "count * h \<le> (count - 1)\<^sup>2 * w"
proof -
  have pos: "0 < grid_rows count w h"
    using assms by (intro grid_rows_pos) simp_all
  have "1 < real count / of_int (grid_rows count w h)"
    using assms(4) unfolding grid_cols_def by (simp add: le_ceiling_iff)
  then have "of_int (grid_rows count w h) < real count"
    using pos by (simp add: field_simps)
  then have "grid_rows count w h < int count"
    by linarith
  then have "grid_rows count w h \<le> int count - 1"
    by simp
  then have "sqrt (real count / (real w / real h)) \<le> of_int (int count - 1)"
    unfolding grid_rows_def by (simp only: ceiling_le_iff)
  then have "sqrt (real count / (real w / real h)) \<le> real count - 1"
    by simp
  then have "(sqrt (real count / (real w / real h)))\<^sup>2 \<le> (real count - 1)\<^sup>2"
    by (intro power_mono) simp_all
  moreover have "0 \<le> real count / (real w / real h)"
    by simp
  ultimately have "real count / (real w / real h) \<le> (real count - 1)\<^sup>2"
    by (simp only: real_sqrt_pow2)
  then have "real count * real h \<le> (real count - 1)\<^sup>2 * real w"
    using assms by (simp add: field_simps)
  moreover have "real (count - 1) = real count - 1"
    using assms(1) by (simp add: of_nat_diff)
  ultimately have "real (count * h) \<le> real ((count - 1)\<^sup>2 * w)"
    by (simp only: of_nat_mult of_nat_power)
  then show ?thesis
    by (simp only: of_nat_le_iff)
qed

lemma grid_bounds_exact:
  assumes "2 \<le> count" "0 < w" "0 < h"
  shows "2 \<le> grid_rows count w h \<and> 2 \<le> grid_cols count w h \<longleftrightarrow>
         count * h \<le> (count - 1)\<^sup>2 * w \<and> w < count * h"
  using assms rows_ge_2 [of w h count] cols_ge_2 [of count w h]
    rows_ge_2_only [of w h count] cols_ge_2_only [of count w h]
  by blast

lemma js_div_zero: "b \<noteq> 0 \<Longrightarrow> js_div 0 b = Some 0"
  by (simp add: js_div_def)

lemma js_div_self: "b \<noteq> 0 \<Longrightarrow> js_div b b = Some 1"
  by (simp add: js_div_def)

lemma real_nat_pred: "1 \<le> k \<Longrightarrow> real (nat k - 1) = of_int k - 1"
  by (simp add: of_nat_diff)

lemma grid_corners:
  assumes "2 \<le> r" "2 \<le> c"
  defines "L \<equiv> concat (map (\<lambda>i. map (\<lambda>j.
                      (js_div (real i) (of_int c - 1), js_div (real j) (of_int r - 1)))
                      [0..<nat r]) [0..<nat c])"
  shows "length L = nat c * nat r \<and>
         L ! 0 = (Some 0, Some 0) \<and>
         L ! (nat r - 1) = (Some 0, Some 1) \<and>
         L ! ((nat c - 1) * nat r) = (Some 1, Some 0) \<and>
         L ! (nat c * nat r - 1) = (Some 1, Some 1)"
proof -
  let ?f = "\<lambda>i j. (js_div (real i) (of_int c - 1), js_div (real j) (of_int r - 1))"
  have r0: "real_of_int r - 1 \<noteq> 0" and c0: "real_of_int c - 1 \<noteq> 0"
    using assms(1,2) by simp_all
  have rn: "real (nat r - 1) = of_int r - 1" and cn: "real (nat c - 1) = of_int c - 1"
    using assms(1,2) by (simp_all add: real_nat_pred)
  have R: "0 < nat r" "nat r - 1 < nat r" and C: "0 < nat c" "nat c - 1 < nat c"
    using assms(1,2) by simp_all
  have len: "length L = nat c * nat r"
    using grid_nth [OF C(1) R(1), of ?f] by (simp add: L_def)
  have p00: "L ! (0 * nat r + 0) = ?f 0 0"
    using grid_nth [OF C(1) R(1), of ?f] unfolding L_def by blast
  have p01: "L ! (0 * nat r + (nat r - 1)) = ?f 0 (nat r - 1)"
    using grid_nth [OF C(1) R(2), of ?f] unfolding L_def by blast
  have p10: "L ! ((nat c - 1) * nat r + 0) = ?f (nat c - 1) 0"
    using grid_nth [OF C(2) R(1), of ?f] unfolding L_def by blast
  have p11: "L ! ((nat c - 1) * nat r + (nat r - 1)) = ?f (nat c - 1) (nat r - 1)"
    using grid_nth [OF C(2) R(2), of ?f] unfolding L_def by blast
  have idx: "(nat c - 1) * nat r + (nat r - 1) = nat c * nat r - 1"
    using R(1) C(1) by (cases "nat c"; cases "nat r") simp_all
  have zr: "js_div (real 0) (of_int r - 1) = Some 0" and zc: "js_div (real 0) (of_int c - 1) = Some 0"
    using r0 c0 by (simp_all add: js_div_zero)
  have er: "js_div (real (nat r - 1)) (of_int r - 1) = Some 1"
    unfolding rn using r0 by (rule js_div_self)
  have ec: "js_div (real (nat c - 1)) (of_int c - 1) = Some 1"
    unfolding cn using c0 by (rule js_div_self)
  have a: "L ! 0 = (Some 0, Some 0)"
    using p00 zr zc by simp
  have b: "L ! (nat r - 1) = (Some 0, Some 1)"
    using p01 zc er by simp
  have c: "L ! ((nat c - 1) * nat r) = (Some 1, Some 0)"
    using p10 zr ec by simp
  have "L ! ((nat c - 1) * nat r + (nat r - 1)) = (Some 1, Some 1)"
    using p11 er ec by simp
  then have d: "L ! (nat c * nat r - 1) = (Some 1, Some 1)"
    unfolding idx .
  from len a b c d show ?thesis by blast
qed

lemma grid_defined:
  assumes "2 \<le> r" "2 \<le> c"
  shows "list_all (\<lambda>p. fst p \<noteq> None \<and> snd p \<noteq> None)
           (concat (map (\<lambda>i. map (\<lambda>j.
                      (js_div (real i) (of_int c - 1), js_div (real j) (of_int r - 1)))
                      [0..<nat r]) [0..<nat c]))"
proof -
  have "real_of_int r - 1 \<noteq> 0" "real_of_int c - 1 \<noteq> 0"
    using assms by simp_all
  then show ?thesis
    by (simp add: list_all_iff js_div_def)
qed

text \<open>
  C2, as amended. For a target count from 2000 to 50000 and a canvas of positive width
  and height whose aspect ratio \<open>w / h\<close> lies between \<open>count / (count - 1)\<^sup>2\<close> and
  \<open>count\<close> (the upper bound excluded), the grid has at least 2 rows and 2 columns, no
  vertex coordinate is the result of a division by zero, and the four corner vertices
  carry the coordinates 0 and 1 exactly.
\<close>

theorem mesh_grid:
  assumes "2000 \<le> count" "count \<le> 50000" "0 < w" "0 < h"
    and "count * h \<le> (count - 1)\<^sup>2 * w" "w < count * h"
  shows "\<exists>g. initWebGL_mesh count w h = Some g \<and> 2 \<le> rows g \<and> 2 \<le> cols g \<and>
           list_all (\<lambda>p. fst p \<noteq> None \<and> snd p \<noteq> None) (uvData g) \<and>
           length (uvData g) = nat (cols g) * nat (rows g) \<and>
           uvData g ! 0 = (Some 0, Some 0) \<and>
           uvData g ! (nat (rows g) - 1) = (Some 0, Some 1) \<and>
           uvData g ! ((nat (cols g) - 1) * nat (rows g)) = (Some 1, Some 0) \<and>
           uvData g ! (nat (cols g) * nat (rows g) - 1) = (Some 1, Some 1)"
proof -
  have r: "2 \<le> grid_rows count w h"
    using assms by (intro rows_ge_2) simp_all
  have c: "2 \<le> grid_cols count w h"
    using assms by (intro cols_ge_2) simp_all
  have m: "initWebGL_mesh count w h =
     Some \<lparr>rows = grid_rows count w h, cols = grid_cols count w h,
           uvData = concat (map (\<lambda>i. map (\<lambda>j.
                      (js_div (real i) (of_int (grid_cols count w h) - 1),
                       js_div (real j) (of_int (grid_rows count w h) - 1)))
                      [0..<nat (grid_rows count w h)]) [0..<nat (grid_cols count w h)]),
           indexData = [0..<nat (grid_rows count w h) * nat (grid_cols count w h)]\<rparr>"
    using assms by (intro mesh_some) simp_all
  show ?thesis
    using r c grid_corners [OF r c] grid_defined [OF r c]
    by (simp only: m option.inject simp_thms ex_simps mesh.simps)
qed

lemma rows_of_mesh:
  "0 < count \<Longrightarrow> 0 < w \<Longrightarrow> 0 < h \<Longrightarrow>
   map_option rows (initWebGL_mesh count w h) = Some (grid_rows count w h)"
  by (simp add: mesh_some)

text \<open>
  Without the bound on the aspect ratio the grid can degenerate: a canvas 2000 wide and
  1 high with 2000 vertices gives a single row, so \<open>j / (rows - 1)\<close> divides by zero.
\<close>

theorem mesh_grid_counterexample:
  "map_option rows (initWebGL_mesh 2000 2000 1) = Some 1"
proof -
  have "grid_rows 2000 2000 1 = 1"
    by (simp add: grid_rows_def)
  then show ?thesis
    by (simp add: rows_of_mesh)
qed

theorem mesh_grid_witness:
  "(2000::nat) \<le> 15000 \<and> (15000::nat) \<le> 50000 \<and> (0::nat) < 1920 \<and> (0::nat) < 1080 \<and>
   (15000::nat) * 1080 \<le> (15000 - 1)\<^sup>2 * 1920 \<and> (1920::nat) < 15000 * 1080 \<and>
   (\<exists>g. initWebGL_mesh 15000 1920 1080 = Some g \<and> 2 \<le> rows g \<and> 2 \<le> cols g \<and>
           list_all (\<lambda>p. fst p \<noteq> None \<and> snd p \<noteq> None) (uvData g) \<and>
           length (uvData g) = nat (cols g) * nat (rows g) \<and>
           uvData g ! 0 = (Some 0, Some 0) \<and>
           uvData g ! (nat (rows g) - 1) = (Some 0, Some 1) \<and>
           uvData g ! ((nat (cols g) - 1) * nat (rows g)) = (Some 1, Some 0) \<and>
           uvData g ! (nat (cols g) * nat (rows g) - 1) = (Some 1, Some 1))"
proof -
  have h: "(2000::nat) \<le> 15000" "(15000::nat) \<le> 50000" "(0::nat) < 1920" "(0::nat) < 1080"
    "(15000::nat) * 1080 \<le> (15000 - 1)\<^sup>2 * 1920" "(1920::nat) < 15000 * 1080"
    by simp_all
  from mesh_grid [OF h] h show ?thesis
    by blast
qed


section \<open>The reveal mask\<close>

lemma hypot_nonneg: "0 \<le> hypot a b"
  by (simp add: hypot_def)

lemma lighten_mono: "0 \<le> a \<Longrightarrow> cb \<le> lighten cb cs a"
proof -
  assume a: "0 \<le> a"
  have "lighten cb cs a = cb + a * (max cb cs - cb)"
    by (simp add: lighten_def algebra_simps)
  moreover have "0 \<le> a * (max cb cs - cb)"
    using a by (intro mult_nonneg_nonneg) simp_all
  ultimately show ?thesis by simp
qed

lemma lighten_le_one:
  assumes "0 \<le> a" "a \<le> 1" "cb \<le> 1" "cs \<le> 1"
  shows "lighten cb cs a \<le> 1"
proof -
  have "(1 - a) * cb \<le> (1 - a) * 1"
    using assms by (intro mult_left_mono) simp_all
  moreover have "a * max cb cs \<le> a * 1"
    using assms by (intro mult_left_mono) simp_all
  ultimately show ?thesis
    by (simp add: lighten_def)
qed

lemma brush_alpha_range: "0 < radius \<Longrightarrow> 0 \<le> d \<Longrightarrow> 0 \<le> brush_alpha radius d \<and> brush_alpha radius d \<le> 1"
  by (simp add: brush_alpha_def field_simps)

lemma distance2_nonneg: "0 \<le> distance2 p q"
  by (simp add: distance2_def hypot_nonneg)

lemma paint_stroke_mono: "mask_px m i j \<le> mask_px (paint_stroke w h pos m) i j"
  using brush_alpha_range [of 80, OF _ distance2_nonneg]
  by (simp add: paint_stroke_def Let_def lighten_mono)

lemma paint_stroke_le_one:
  "mask_px m i j \<le> 1 \<Longrightarrow> mask_px (paint_stroke w h pos m) i j \<le> 1"
  using brush_alpha_range [of 80, OF _ distance2_nonneg]
  by (simp add: paint_stroke_def Let_def lighten_le_one)

lemma paint_stroke_dims:
  "mask_width (paint_stroke w h pos m) = mask_width m"
  "mask_height (paint_stroke w h pos m) = mask_height m"
  by (simp_all add: paint_stroke_def Let_def)

lemma resize_mask_same:
  "mask_width m = w \<Longrightarrow> mask_height m = h \<Longrightarrow> resize_mask w h m = m"
  by (simp add: resize_mask_def)

lemma resize_mask_changed:
  "mask_width m \<noteq> w \<or> mask_height m \<noteq> h \<Longrightarrow> resize_mask w h m = blank_mask w h"
  by (auto simp add: resize_mask_def)

lemma resize_mask_dims:
  "mask_width (resize_mask w h m) = w" "mask_height (resize_mask w h m) = h"
  by (simp_all add: resize_mask_def blank_mask_def)

lemma resize_mask_le_one:
  "mask_px m i j \<le> 1 \<Longrightarrow> mask_px (resize_mask w h m) i j \<le> 1"
  by (simp add: resize_mask_def blank_mask_def)

lemma render_mask_dims:
  "mask_width (render_mask w h hs m) = w" "mask_height (render_mask w h hs m) = h"
  by (simp_all add: render_mask_def Let_def paint_stroke_dims resize_mask_dims)

lemma render_mask_mono:
  "mask_width m = w \<Longrightarrow> mask_height m = h \<Longrightarrow> mask_px m i j \<le> mask_px (render_mask w h hs m) i j"
  by (simp add: render_mask_def Let_def resize_mask_same paint_stroke_mono)

lemma render_mask_le_one:
  "mask_px m i j \<le> 1 \<Longrightarrow> mask_px (render_mask w h hs m) i j \<le> 1"
  by (simp add: render_mask_def Let_def resize_mask_le_one paint_stroke_le_one)

lemma render_masks_mono:
  "list_all (same_size m) fs \<Longrightarrow> mask_px m i j \<le> mask_px (render_masks fs m) i j"
proof (induction fs arbitrary: m)
  case Nil
  show ?case by simp
next
  case (Cons f fs)
  obtain w h hs where f: "f = (w, h, hs)"
    by (cases f) auto
  from Cons.prems f have wh: "mask_width m = w" "mask_height m = h"
    by (simp_all add: same_size_def)
  have same: "same_size (render_mask w h hs m) = same_size m"
    by (simp add: same_size_def fun_eq_iff render_mask_dims wh)
  have "mask_px m i j \<le> mask_px (render_mask w h hs m) i j"
    using wh by (rule render_mask_mono)
  also have "\<dots> \<le> mask_px (render_masks fs (render_mask w h hs m)) i j"
    using Cons.prems by (intro Cons.IH) (simp add: same)
  finally show ?case
    by (simp add: f)
qed

lemma render_masks_le_one:
  "(\<forall>i j. mask_px m i j \<le> 1) \<Longrightarrow> mask_px (render_masks fs m) i j \<le> 1"
proof (induction fs arbitrary: m)
  case Nil
  then show ?case by simp
next
  case (Cons f fs)
  obtain w h hs where f: "f = (w, h, hs)"
    by (cases f) auto
  have "\<forall>i j. mask_px (render_mask w h hs m) i j \<le> 1"
    using Cons.prems by (simp add: render_mask_le_one)
  then show ?case
    by (simp add: f Cons.IH)
qed

lemma render_mask_after_resize:
  "mask_width m \<noteq> w \<or> mask_height m \<noteq> h \<Longrightarrow>
   render_mask w h hs m = render_mask w h hs (blank_mask w h)"
  by (simp add: render_mask_def Let_def resize_mask_changed resize_mask_same blank_mask_def)

text \<open>
  C1. Over any sequence of frames that find the display at the size of the mask, fist
  strokes included, no pixel of the mask ever decreases; no pixel ever exceeds 1,
  whatever the frames; and a frame that finds the display at another size replaces the
  mask by one of the new size with every pixel 0, so that nothing painted before
  survives.
\<close>

theorem reveal_mask_invariants:
  "(list_all (same_size m) fs \<longrightarrow> mask_px m i j \<le> mask_px (render_masks fs m) i j) \<and>
   ((\<forall>i j. mask_px m i j \<le> 1) \<longrightarrow> mask_px (render_masks fs m) i j \<le> 1) \<and>
   mask_px (render_masks fs (blank_mask w h)) i j \<le> 1 \<and>
   (mask_width m \<noteq> w \<or> mask_height m \<noteq> h \<longrightarrow>
      resize_mask w h m = blank_mask w h \<and>
      mask_width (resize_mask w h m) = w \<and> mask_height (resize_mask w h m) = h \<and>
      mask_px (resize_mask w h m) i j = 0 \<and>
      render_mask w h hs m = render_mask w h hs (blank_mask w h))"
proof -
  have a: "list_all (same_size m) fs \<longrightarrow> mask_px m i j \<le> mask_px (render_masks fs m) i j"
    by (simp add: render_masks_mono)
  have b: "(\<forall>i j. mask_px m i j \<le> 1) \<longrightarrow> mask_px (render_masks fs m) i j \<le> 1"
    by (simp add: render_masks_le_one)
  have c: "mask_px (render_masks fs (blank_mask w h)) i j \<le> 1"
    by (rule render_masks_le_one) (simp add: blank_mask_def)
  have d: "mask_width m \<noteq> w \<or> mask_height m \<noteq> h \<longrightarrow>
      resize_mask w h m = blank_mask w h \<and>
      mask_width (resize_mask w h m) = w \<and> mask_height (resize_mask w h m) = h \<and>
      mask_px (resize_mask w h m) i j = 0 \<and>
      render_mask w h hs m = render_mask w h hs (blank_mask w h)"
    using render_mask_after_resize [of m w h hs]
    by (auto simp add: resize_mask_changed resize_mask_dims blank_mask_def)
  from a b c d show ?thesis by blast
qed

lemma two_strokes:
  "mask_px (render_masks [(1, 1, fist_state), (1, 1, fist_state)] (blank_mask 1 1)) 0 0 = 0.36"
  by (simp add: render_mask_def resize_mask_def blank_mask_def paint_stroke_def fist_state_def
      initial_hand_state_def FIST_def Let_def lighten_def brush_alpha_def distance2_def hypot_def)

lemma same_size_strokes:
  "list_all (same_size (blank_mask 1 1)) [(1, 1, fist_state), (1, 1, fist_state)]"
  by (simp add: same_size_def blank_mask_def)

theorem reveal_mask_invariants_witness:
  "list_all (same_size (blank_mask 1 1)) [(1, 1, fist_state), (1, 1, fist_state)] \<and>
   (\<forall>i j. mask_px (blank_mask 1 1) i j \<le> 1) \<and>
   mask_width (blank_mask 1 1) \<noteq> 640 \<and>
   mask_px (blank_mask 1 1) 0 0 \<le>
     mask_px (render_masks [(1, 1, fist_state), (1, 1, fist_state)] (blank_mask 1 1)) 0 0 \<and>
   mask_px (render_masks [(1, 1, fist_state), (1, 1, fist_state)] (blank_mask 1 1)) 0 0 \<le> 1 \<and>
   mask_px (render_masks [(1, 1, fist_state), (1, 1, fist_state)] (blank_mask 1 1)) 0 0 = 0.36 \<and>
   resize_mask 640 480 (blank_mask 1 1) = blank_mask 640 480 \<and>
   mask_px (resize_mask 640 480 (blank_mask 1 1)) 0 0 = 0"
proof -
  have b: "\<forall>i j. mask_px (blank_mask 1 1) i j \<le> 1"
    by (simp add: blank_mask_def)
  have n: "mask_width (blank_mask 1 1) \<noteq> 640"
    by (simp add: blank_mask_def)
  from reveal_mask_invariants [of "blank_mask 1 1" "[(1, 1, fist_state), (1, 1, fist_state)]"
      0 0 640 480 fist_state] same_size_strokes b n two_strokes
  show ?thesis
    by blast
qed


section \<open>The vertex shaders\<close>

lemma warp_lines_none:
  "u_gesture U = 0 \<Longrightarrow> warp_lines U uv = (base_pos U uv, 0, baseColor 1.5 U uv)"
  by (simp add: warp_lines_def Let_def)

lemma warp_scatter_none:
  "u_gesture U = 0 \<Longrightarrow> warp_scatter U uv = (base_pos U uv, 0, baseColor 1.2 U uv)"
  by (simp add: warp_scatter_def Let_def)

lemma warp_lines_fist:
  "u_gesture U = 1 \<Longrightarrow>
   warp_lines U uv =
     (base_pos U uv,
      (if vertex_dist U uv < 0.25 then 0 - (0.25 - vertex_dist U uv) * 0.6 else 0),
      baseColor 1.5 U uv)"
  by (simp add: warp_lines_def Let_def)

lemma warp_scatter_fist:
  "u_gesture U = 1 \<Longrightarrow>
   warp_scatter U uv =
     (base_pos U uv,
      (if vertex_dist U uv < 0.2 then 0 - (0.2 - vertex_dist U uv) * 0.5 else 0),
      baseColor 1.2 U uv)"
  by (simp add: warp_scatter_def Let_def)

lemma warp_lines_pinch:
  "u_gesture U = 4 \<Longrightarrow> vertex_dist U uv < 0.3 \<Longrightarrow>
   warp_lines U uv =
     (mix2 (base_pos U uv) (handPos2D U) ((0.3 - vertex_dist U uv) / 0.3 * 0.05),
      sin (vertex_dist U uv * 60 - u_time U * 12) * ((0.3 - vertex_dist U uv) / 0.3) * 0.1,
      add3 (baseColor 1.5 U uv) (scale3 (0.3, 0, 0.3) ((0.3 - vertex_dist U uv) / 0.3)))"
  by (simp add: warp_lines_def Let_def)

lemma warp_lines_pinch_far:
  "u_gesture U = 4 \<Longrightarrow> \<not> vertex_dist U uv < 0.3 \<Longrightarrow>
   warp_lines U uv = (base_pos U uv, 0, baseColor 1.5 U uv)"
  by (simp add: warp_lines_def Let_def)

lemma warp_scatter_open:
  "u_gesture U = 2 \<Longrightarrow> vertex_dist U uv < 0.4 \<Longrightarrow>
   warp_scatter U uv =
     (base_pos U uv,
      sin (vertex_dist U uv * 40 - u_time U * 8) * ((0.4 - vertex_dist U uv) / 0.4) * 0.15,
      baseColor 1.2 U uv)"
  by (simp add: warp_scatter_def Let_def)

lemma warp_scatter_open_far:
  "u_gesture U = 2 \<Longrightarrow> \<not> vertex_dist U uv < 0.4 \<Longrightarrow>
   warp_scatter U uv = (base_pos U uv, 0, baseColor 1.2 U uv)"
  by (simp add: warp_scatter_def Let_def)

lemma warp_lines_open:
  "u_gesture U = 2 \<Longrightarrow> 0.1 < u_mask U (texCoord uv) \<Longrightarrow> vertex_dist U uv < 0.65 \<Longrightarrow>
   warp_lines U uv =
     (add2 (mix2 (base_pos U uv)
              (add2 (handPos2D U) (scale2 (sub2 (base_pos U uv) (handPos2D U)) 0.7))
              (smoothstep 0.65 0 (vertex_dist U uv) * 0.3))
           (scale2 (u_handVel U) (smoothstep 0.65 0 (vertex_dist U uv) * 12)),
      sin (vertex_dist U uv * 12 - u_time U * 6) * smoothstep 0.65 0 (vertex_dist U uv) * 1.2,
      add3 (baseColor 1.5 U uv) (scale3 (0, 0.4, 0.6) (smoothstep 0.65 0 (vertex_dist U uv))))"
  by (simp add: warp_lines_def Let_def)

lemma warp_scatter_pinch:
  "u_gesture U = 4 \<Longrightarrow> 0.1 < u_mask U (texCoord uv) \<Longrightarrow> vertex_dist U uv < 0.5 \<Longrightarrow>
   warp_scatter U uv =
     (add2 (mix2 (base_pos U uv)
              (add2 (handPos2D U) (scale2 (sub2 (base_pos U uv) (handPos2D U)) 0.6))
              (smoothstep 0.5 0 (vertex_dist U uv) * 0.4))
           (scale2 (u_handVel U) (smoothstep 0.5 0 (vertex_dist U uv) * 3)),
      sin (fst uv * 150) * cos (snd uv * 150) * 2,
      add3 (baseColor 1.2 U uv) (scale3 (0.2, 0.1, 0.3) (smoothstep 0.5 0 (vertex_dist U uv))))"
  by (simp add: warp_scatter_def Let_def)

lemma baseColor_unrevealed:
  "u_mask U (texCoord uv) = 0 \<Longrightarrow> baseColor boost U uv = splat3 (gray_level U uv)"
  by (simp add: baseColor_def gray_level_def Let_def mix3_def mix_def splat3_def)

lemma sample_dist: "vertex_dist (sample_uniforms g m) (3/4 + d / 2, 3/4) = \<bar>d\<bar>"
  by (simp add: vertex_dist_def distance2_def base_pos_def handPos2D_def sample_uniforms_def
      hypot_zero_right)

lemma smoothstep_sample: "smoothstep 0.3 0 (3/40) = 27/32"
  by (simp add: smoothstep_def clamp_def Let_def)


lemma gesture_update_frame:
  "base_pos (U\<lparr>u_gesture := g\<rparr>) uv = base_pos U uv"
  "handPos2D (U\<lparr>u_gesture := g\<rparr>) = handPos2D U"
  "vertex_dist (U\<lparr>u_gesture := g\<rparr>) uv = vertex_dist U uv"
  "baseColor boost (U\<lparr>u_gesture := g\<rparr>) uv = baseColor boost U uv"
  by (simp_all add: base_pos_def handPos2D_def vertex_dist_def baseColor_def)

lemma pointSize_low_gesture:
  "u_gesture U \<le> 3.5 \<Longrightarrow>
   pointSize U uv = (if 0.5 < u_mask U (texCoord uv) then u_pointSize U * 1.5 else u_pointSize U)"
  by (simp add: pointSize_def Let_def)

lemma shader_lines_none:
  "u_gesture U = 0 \<Longrightarrow>
   VERTEX_SHADER_lines U uv idx =
     \<lparr>gl_Position = (fst (base_pos U uv), snd (base_pos U uv), 0), v_color = baseColor 1.5 U uv,
      v_depth = 0, v_isQuantum = isQuantum idx\<rparr>"
  by (simp add: VERTEX_SHADER_lines_def warp_lines_none)

lemma shader_scatter_none:
  "u_gesture U = 0 \<Longrightarrow>
   VERTEX_SHADER_scatter U uv idx =
     \<lparr>gl_Position = (fst (base_pos U uv), snd (base_pos U uv), 0), v_color = baseColor 1.2 U uv,
      v_depth = 0, v_isQuantum = isQuantum idx,
      gl_PointSize = (if 0.5 < u_mask U (texCoord uv) then u_pointSize U * 1.5 else u_pointSize U)\<rparr>"
  by (simp add: VERTEX_SHADER_scatter_def warp_scatter_none pointSize_low_gesture)

lemma shader_lines_fist:
  "u_gesture U = 1 \<Longrightarrow>
   VERTEX_SHADER_lines U uv idx =
     \<lparr>gl_Position = (fst (base_pos U uv), snd (base_pos U uv),
        (if vertex_dist U uv < 0.25 then 0 - (0.25 - vertex_dist U uv) * 0.6 else 0)),
      v_color = baseColor 1.5 U uv,
      v_depth = (if vertex_dist U uv < 0.25 then 0 - (0.25 - vertex_dist U uv) * 0.6 else 0),
      v_isQuantum = isQuantum idx\<rparr>"
  by (simp add: VERTEX_SHADER_lines_def warp_lines_fist)

lemma shader_scatter_fist:
  "u_gesture U = 1 \<Longrightarrow>
   VERTEX_SHADER_scatter U uv idx =
     \<lparr>gl_Position = (fst (base_pos U uv), snd (base_pos U uv),
        (if vertex_dist U uv < 0.2 then 0 - (0.2 - vertex_dist U uv) * 0.5 else 0)),
      v_color = baseColor 1.2 U uv,
      v_depth = (if vertex_dist U uv < 0.2 then 0 - (0.2 - vertex_dist U uv) * 0.5 else 0),
      v_isQuantum = isQuantum idx,
      gl_PointSize = (if 0.5 < u_mask U (texCoord uv) then u_pointSize U * 1.5 else u_pointSize U)\<rparr>"
  by (simp add: VERTEX_SHADER_scatter_def warp_scatter_fist pointSize_low_gesture)

text \<open>
  C5. While the gesture is the fist, a vertex closer to the hand than the inner radius
  (0.25 in the line mesh, 0.2 in the point cloud) keeps its base \<open>x\<close> and \<open>y\<close> and its
  base colour, and its depth is lowered by a multiple (0.6, 0.5) of the inner radius
  minus the distance; a vertex at or beyond the inner radius comes out exactly as it
  does with no gesture at all.
\<close>

theorem press_warp:
  "u_gesture U = real FIST \<longrightarrow>
     (vertex_dist U uv < 0.25 \<longrightarrow>
        gl_Position (VERTEX_SHADER_lines U uv idx) =
          (fst (base_pos U uv), snd (base_pos U uv), 0 - 0.6 * (0.25 - vertex_dist U uv)) \<and>
        v_depth (VERTEX_SHADER_lines U uv idx) = 0 - 0.6 * (0.25 - vertex_dist U uv) \<and>
        v_color (VERTEX_SHADER_lines U uv idx) = baseColor 1.5 U uv) \<and>
     (0.25 \<le> vertex_dist U uv \<longrightarrow>
        VERTEX_SHADER_lines U uv idx = VERTEX_SHADER_lines (U\<lparr>u_gesture := real NONE\<rparr>) uv idx \<and>
        gl_Position (VERTEX_SHADER_lines U uv idx) = (fst (base_pos U uv), snd (base_pos U uv), 0)) \<and>
     (vertex_dist U uv < 0.2 \<longrightarrow>
        gl_Position (VERTEX_SHADER_scatter U uv idx) =
          (fst (base_pos U uv), snd (base_pos U uv), 0 - 0.5 * (0.2 - vertex_dist U uv)) \<and>
        v_depth (VERTEX_SHADER_scatter U uv idx) = 0 - 0.5 * (0.2 - vertex_dist U uv) \<and>
        v_color (VERTEX_SHADER_scatter U uv idx) = baseColor 1.2 U uv) \<and>
     (0.2 \<le> vertex_dist U uv \<longrightarrow>
        VERTEX_SHADER_scatter U uv idx = VERTEX_SHADER_scatter (U\<lparr>u_gesture := real NONE\<rparr>) uv idx \<and>
        gl_Position (VERTEX_SHADER_scatter U uv idx) = (fst (base_pos U uv), snd (base_pos U uv), 0))"
proof
  assume "u_gesture U = real FIST"
  then have g: "u_gesture U = 1"
    by (simp add: FIST_def)
  have n: "u_gesture (U\<lparr>u_gesture := real NONE\<rparr>) = 0"
    by (simp add: NONE_def)
  have l0: "VERTEX_SHADER_lines (U\<lparr>u_gesture := real NONE\<rparr>) uv idx =
     \<lparr>gl_Position = (fst (base_pos U uv), snd (base_pos U uv), 0), v_color = baseColor 1.5 U uv,
      v_depth = 0, v_isQuantum = isQuantum idx\<rparr>"
    by (simp add: shader_lines_none [OF n] gesture_update_frame)
  have s0: "VERTEX_SHADER_scatter (U\<lparr>u_gesture := real NONE\<rparr>) uv idx =
     \<lparr>gl_Position = (fst (base_pos U uv), snd (base_pos U uv), 0), v_color = baseColor 1.2 U uv,
      v_depth = 0, v_isQuantum = isQuantum idx,
      gl_PointSize = (if 0.5 < u_mask U (texCoord uv) then u_pointSize U * 1.5 else u_pointSize U)\<rparr>"
    by (simp add: shader_scatter_none [OF n] gesture_update_frame)
  show "(vertex_dist U uv < 0.25 \<longrightarrow>
        gl_Position (VERTEX_SHADER_lines U uv idx) =
          (fst (base_pos U uv), snd (base_pos U uv), 0 - 0.6 * (0.25 - vertex_dist U uv)) \<and>
        v_depth (VERTEX_SHADER_lines U uv idx) = 0 - 0.6 * (0.25 - vertex_dist U uv) \<and>
        v_color (VERTEX_SHADER_lines U uv idx) = baseColor 1.5 U uv) \<and>
     (0.25 \<le> vertex_dist U uv \<longrightarrow>
        VERTEX_SHADER_lines U uv idx = VERTEX_SHADER_lines (U\<lparr>u_gesture := real NONE\<rparr>) uv idx \<and>
        gl_Position (VERTEX_SHADER_lines U uv idx) = (fst (base_pos U uv), snd (base_pos U uv), 0)) \<and>
     (vertex_dist U uv < 0.2 \<longrightarrow>
        gl_Position (VERTEX_SHADER_scatter U uv idx) =
          (fst (base_pos U uv), snd (base_pos U uv), 0 - 0.5 * (0.2 - vertex_dist U uv)) \<and>
        v_depth (VERTEX_SHADER_scatter U uv idx) = 0 - 0.5 * (0.2 - vertex_dist U uv) \<and>
        v_color (VERTEX_SHADER_scatter U uv idx) = baseColor 1.2 U uv) \<and>
     (0.2 \<le> vertex_dist U uv \<longrightarrow>
        VERTEX_SHADER_scatter U uv idx = VERTEX_SHADER_scatter (U\<lparr>u_gesture := real NONE\<rparr>) uv idx \<and>
        gl_Position (VERTEX_SHADER_scatter U uv idx) = (fst (base_pos U uv), snd (base_pos U uv), 0))"
    by (simp add: shader_lines_fist [OF g] shader_scatter_fist [OF g] l0 s0)
qed

lemma sample_fields:
  "u_gesture (sample_uniforms g m) = g"
  "u_mask (sample_uniforms g m) c = m"
  by (simp_all add: sample_uniforms_def)

theorem press_warp_witness:
  "u_gesture (sample_uniforms 1 0) = real FIST \<and>
   vertex_dist (sample_uniforms 1 0) (3/4, 3/4) < 0.25 \<and>
   vertex_dist (sample_uniforms 1 0) (3/4, 3/4) < 0.2 \<and>
   0.25 \<le> vertex_dist (sample_uniforms 1 0) (1, 3/4) \<and>
   0.2 \<le> vertex_dist (sample_uniforms 1 0) (1, 3/4) \<and>
   v_depth (VERTEX_SHADER_lines (sample_uniforms 1 0) (3/4, 3/4) 0) =
     0 - 0.6 * (0.25 - vertex_dist (sample_uniforms 1 0) (3/4, 3/4)) \<and>
   v_depth (VERTEX_SHADER_scatter (sample_uniforms 1 0) (3/4, 3/4) 0) =
     0 - 0.5 * (0.2 - vertex_dist (sample_uniforms 1 0) (3/4, 3/4)) \<and>
   VERTEX_SHADER_lines (sample_uniforms 1 0) (1, 3/4) 0 =
     VERTEX_SHADER_lines ((sample_uniforms 1 0)\<lparr>u_gesture := real NONE\<rparr>) (1, 3/4) 0 \<and>
   VERTEX_SHADER_scatter (sample_uniforms 1 0) (1, 3/4) 0 =
     VERTEX_SHADER_scatter ((sample_uniforms 1 0)\<lparr>u_gesture := real NONE\<rparr>) (1, 3/4) 0"
proof -
  have g: "u_gesture (sample_uniforms 1 0) = real FIST"
    by (simp add: sample_fields FIST_def)
  have near: "vertex_dist (sample_uniforms 1 0) (3/4, 3/4) = 0"
    using sample_dist [of 1 0 0] by simp
  have far: "vertex_dist (sample_uniforms 1 0) (1, 3/4) = 1/2"
    using sample_dist [of 1 0 "1/2"] by simp
  have n: "vertex_dist (sample_uniforms 1 0) (3/4, 3/4) < 0.25"
    "vertex_dist (sample_uniforms 1 0) (3/4, 3/4) < 0.2"
    by (simp_all add: near)
  have f: "0.25 \<le> vertex_dist (sample_uniforms 1 0) (1, 3/4)"
    "0.2 \<le> vertex_dist (sample_uniforms 1 0) (1, 3/4)"
    by (simp_all add: far)
  from press_warp [of "sample_uniforms 1 0" "(3/4, 3/4)" 0]
       press_warp [of "sample_uniforms 1 0" "(1, 3/4)" 0] g n f
  show ?thesis
    by blast
qed


lemma add3_zero: "add3 c (scale3 a 0) = c"
  by (simp add: add3_def scale3_def)

lemma mix2_zero: "mix2 p q 0 = p"
  by (simp add: mix2_def mix_def)

lemma depth_lines_fist:
  "u_gesture U = 1 \<Longrightarrow>
   v_depth (VERTEX_SHADER_lines U uv idx) = - (0.6 * max 0 (0.25 - vertex_dist U uv))"
  by (simp add: shader_lines_fist max_def)

lemma depth_scatter_fist:
  "u_gesture U = 1 \<Longrightarrow>
   v_depth (VERTEX_SHADER_scatter U uv idx) = - (0.5 * max 0 (0.2 - vertex_dist U uv))"
  by (simp add: shader_scatter_fist max_def)

lemma lines_pinch_ramp:
  assumes "u_gesture U = 4"
  shows "v_color (VERTEX_SHADER_lines U uv idx) =
           add3 (baseColor 1.5 U uv) (scale3 (0.3, 0, 0.3) (max 0 (0.3 - vertex_dist U uv) / 0.3)) \<and>
         v_depth (VERTEX_SHADER_lines U uv idx) =
           sin (vertex_dist U uv * 60 - u_time U * 12) * (max 0 (0.3 - vertex_dist U uv) / 0.3) * 0.1 \<and>
         (fst (gl_Position (VERTEX_SHADER_lines U uv idx)),
          fst (snd (gl_Position (VERTEX_SHADER_lines U uv idx)))) =
           mix2 (base_pos U uv) (handPos2D U) (max 0 (0.3 - vertex_dist U uv) / 0.3 * 0.05)"
proof (cases "vertex_dist U uv < 0.3")
  case True
  then have "max 0 (0.3 - vertex_dist U uv) = 0.3 - vertex_dist U uv"
    by simp
  then show ?thesis
    by (simp add: VERTEX_SHADER_lines_def warp_lines_pinch [OF assms True])
next
  case False
  then have "max 0 (0.3 - vertex_dist U uv) = 0"
    by simp
  then show ?thesis
    by (simp add: VERTEX_SHADER_lines_def warp_lines_pinch_far [OF assms False] add3_zero mix2_zero)
qed

lemma scatter_open_ramp:
  assumes "u_gesture U = 2"
  shows "v_depth (VERTEX_SHADER_scatter U uv idx) =
           sin (vertex_dist U uv * 40 - u_time U * 8) * (max 0 (0.4 - vertex_dist U uv) / 0.4) * 0.15"
proof (cases "vertex_dist U uv < 0.4")
  case True
  then have "max 0 (0.4 - vertex_dist U uv) = 0.4 - vertex_dist U uv"
    by simp
  then show ?thesis
    by (simp add: VERTEX_SHADER_scatter_def warp_scatter_open [OF assms True])
next
  case False
  then have "max 0 (0.4 - vertex_dist U uv) = 0"
    by simp
  then show ?thesis
    by (simp add: VERTEX_SHADER_scatter_def warp_scatter_open_far [OF assms False])
qed

text \<open>
  C3, as amended. In both variants only the pull-and-wave warp (open hand in the line
  mesh, pinch in the point cloud, on revealed vertices inside the radius) takes its
  strength from \<open>smoothstep(radius, 0, distance)\<close>, which scales its pull towards
  the hand, its velocity wave, its tint and, in the line mesh, its depth wave. The
  press lowers the depth by a multiple of the linear ramp
  \<open>max(0, innerRadius - distance)\<close>, and the tension or ripple warp scales its depth
  ripple (and, in the line mesh, its tint and contraction) by the linear ramp
  \<open>max(0, radius - distance) / radius\<close>; both ramps are 0 at the radius.
\<close>

theorem warp_falloff:
  "(u_gesture U = real OPEN \<and> 0.1 < u_mask U (texCoord uv) \<and> vertex_dist U uv < 0.65 \<longrightarrow>
      v_color (VERTEX_SHADER_lines U uv idx) =
        add3 (baseColor 1.5 U uv) (scale3 (0, 0.4, 0.6) (smoothstep 0.65 0 (vertex_dist U uv))) \<and>
      v_depth (VERTEX_SHADER_lines U uv idx) =
        sin (vertex_dist U uv * 12 - u_time U * 6) * smoothstep 0.65 0 (vertex_dist U uv) * 1.2 \<and>
      (fst (gl_Position (VERTEX_SHADER_lines U uv idx)),
       fst (snd (gl_Position (VERTEX_SHADER_lines U uv idx)))) =
        add2 (mix2 (base_pos U uv)
                (add2 (handPos2D U) (scale2 (sub2 (base_pos U uv) (handPos2D U)) 0.7))
                (smoothstep 0.65 0 (vertex_dist U uv) * 0.3))
             (scale2 (u_handVel U) (smoothstep 0.65 0 (vertex_dist U uv) * 12))) \<and>
   (u_gesture U = real PINCH \<and> 0.1 < u_mask U (texCoord uv) \<and> vertex_dist U uv < 0.5 \<longrightarrow>
      v_color (VERTEX_SHADER_scatter U uv idx) =
        add3 (baseColor 1.2 U uv) (scale3 (0.2, 0.1, 0.3) (smoothstep 0.5 0 (vertex_dist U uv))) \<and>
      (fst (gl_Position (VERTEX_SHADER_scatter U uv idx)),
       fst (snd (gl_Position (VERTEX_SHADER_scatter U uv idx)))) =
        add2 (mix2 (base_pos U uv)
                (add2 (handPos2D U) (scale2 (sub2 (base_pos U uv) (handPos2D U)) 0.6))
                (smoothstep 0.5 0 (vertex_dist U uv) * 0.4))
             (scale2 (u_handVel U) (smoothstep 0.5 0 (vertex_dist U uv) * 3))) \<and>
   (u_gesture U = real FIST \<longrightarrow>
      v_depth (VERTEX_SHADER_lines U uv idx) = - (0.6 * max 0 (0.25 - vertex_dist U uv)) \<and>
      v_depth (VERTEX_SHADER_scatter U uv idx) = - (0.5 * max 0 (0.2 - vertex_dist U uv))) \<and>
   (u_gesture U = real PINCH \<longrightarrow>
      v_color (VERTEX_SHADER_lines U uv idx) =
        add3 (baseColor 1.5 U uv) (scale3 (0.3, 0, 0.3) (max 0 (0.3 - vertex_dist U uv) / 0.3)) \<and>
      v_depth (VERTEX_SHADER_lines U uv idx) =
        sin (vertex_dist U uv * 60 - u_time U * 12) * (max 0 (0.3 - vertex_dist U uv) / 0.3) * 0.1 \<and>
      (fst (gl_Position (VERTEX_SHADER_lines U uv idx)),
       fst (snd (gl_Position (VERTEX_SHADER_lines U uv idx)))) =
        mix2 (base_pos U uv) (handPos2D U) (max 0 (0.3 - vertex_dist U uv) / 0.3 * 0.05)) \<and>
   (u_gesture U = real OPEN \<longrightarrow>
      v_depth (VERTEX_SHADER_scatter U uv idx) =
        sin (vertex_dist U uv * 40 - u_time U * 8) * (max 0 (0.4 - vertex_dist U uv) / 0.4) * 0.15)"
proof -
  have a: "u_gesture U = real OPEN \<and> 0.1 < u_mask U (texCoord uv) \<and> vertex_dist U uv < 0.65 \<longrightarrow>
      v_color (VERTEX_SHADER_lines U uv idx) =
        add3 (baseColor 1.5 U uv) (scale3 (0, 0.4, 0.6) (smoothstep 0.65 0 (vertex_dist U uv))) \<and>
      v_depth (VERTEX_SHADER_lines U uv idx) =
        sin (vertex_dist U uv * 12 - u_time U * 6) * smoothstep 0.65 0 (vertex_dist U uv) * 1.2 \<and>
      (fst (gl_Position (VERTEX_SHADER_lines U uv idx)),
       fst (snd (gl_Position (VERTEX_SHADER_lines U uv idx)))) =
        add2 (mix2 (base_pos U uv)
                (add2 (handPos2D U) (scale2 (sub2 (base_pos U uv) (handPos2D U)) 0.7))
                (smoothstep 0.65 0 (vertex_dist U uv) * 0.3))
             (scale2 (u_handVel U) (smoothstep 0.65 0 (vertex_dist U uv) * 12))"
    by (simp add: OPEN_def VERTEX_SHADER_lines_def warp_lines_open)
  have b: "u_gesture U = real PINCH \<and> 0.1 < u_mask U (texCoord uv) \<and> vertex_dist U uv < 0.5 \<longrightarrow>
      v_color (VERTEX_SHADER_scatter U uv idx) =
        add3 (baseColor 1.2 U uv) (scale3 (0.2, 0.1, 0.3) (smoothstep 0.5 0 (vertex_dist U uv))) \<and>
      (fst (gl_Position (VERTEX_SHADER_scatter U uv idx)),
       fst (snd (gl_Position (VERTEX_SHADER_scatter U uv idx)))) =
        add2 (mix2 (base_pos U uv)
                (add2 (handPos2D U) (scale2 (sub2 (base_pos U uv) (handPos2D U)) 0.6))
                (smoothstep 0.5 0 (vertex_dist U uv) * 0.4))
             (scale2 (u_handVel U) (smoothstep 0.5 0 (vertex_dist U uv) * 3))"
    by (simp add: PINCH_def VERTEX_SHADER_scatter_def warp_scatter_pinch)
  have c: "u_gesture U = real FIST \<longrightarrow>
      v_depth (VERTEX_SHADER_lines U uv idx) = - (0.6 * max 0 (0.25 - vertex_dist U uv)) \<and>
      v_depth (VERTEX_SHADER_scatter U uv idx) = - (0.5 * max 0 (0.2 - vertex_dist U uv))"
    by (simp add: FIST_def depth_lines_fist depth_scatter_fist)
  have d: "u_gesture U = real PINCH \<longrightarrow>
      v_color (VERTEX_SHADER_lines U uv idx) =
        add3 (baseColor 1.5 U uv) (scale3 (0.3, 0, 0.3) (max 0 (0.3 - vertex_dist U uv) / 0.3)) \<and>
      v_depth (VERTEX_SHADER_lines U uv idx) =
        sin (vertex_dist U uv * 60 - u_time U * 12) * (max 0 (0.3 - vertex_dist U uv) / 0.3) * 0.1 \<and>
      (fst (gl_Position (VERTEX_SHADER_lines U uv idx)),
       fst (snd (gl_Position (VERTEX_SHADER_lines U uv idx)))) =
        mix2 (base_pos U uv) (handPos2D U) (max 0 (0.3 - vertex_dist U uv) / 0.3 * 0.05)"
    using lines_pinch_ramp [of U uv idx] by (simp add: PINCH_def)
  have e: "u_gesture U = real OPEN \<longrightarrow>
      v_depth (VERTEX_SHADER_scatter U uv idx) =
        sin (vertex_dist U uv * 40 - u_time U * 8) * (max 0 (0.4 - vertex_dist U uv) / 0.4) * 0.15"
    using scatter_open_ramp [of U uv idx] by (simp add: OPEN_def)
  from a b c d e show ?thesis by blast
qed

theorem warp_falloff_witness:
  "u_gesture (sample_uniforms 2 1) = real OPEN \<and>
   0.1 < u_mask (sample_uniforms 2 1) (texCoord (3/4, 3/4)) \<and>
   vertex_dist (sample_uniforms 2 1) (3/4, 3/4) < 0.65 \<and>
   v_color (VERTEX_SHADER_lines (sample_uniforms 2 1) (3/4, 3/4) 0) =
     add3 (baseColor 1.5 (sample_uniforms 2 1) (3/4, 3/4))
       (scale3 (0, 0.4, 0.6) (smoothstep 0.65 0 (vertex_dist (sample_uniforms 2 1) (3/4, 3/4)))) \<and>
   u_gesture (sample_uniforms 4 1) = real PINCH \<and>
   0.1 < u_mask (sample_uniforms 4 1) (texCoord (3/4, 3/4)) \<and>
   vertex_dist (sample_uniforms 4 1) (3/4, 3/4) < 0.5 \<and>
   v_color (VERTEX_SHADER_scatter (sample_uniforms 4 1) (3/4, 3/4) 0) =
     add3 (baseColor 1.2 (sample_uniforms 4 1) (3/4, 3/4))
       (scale3 (0.2, 0.1, 0.3) (smoothstep 0.5 0 (vertex_dist (sample_uniforms 4 1) (3/4, 3/4)))) \<and>
   v_depth (VERTEX_SHADER_lines (sample_uniforms 4 1) (3/4, 3/4) 0) =
     sin (vertex_dist (sample_uniforms 4 1) (3/4, 3/4) * 60 - u_time (sample_uniforms 4 1) * 12) *
       (max 0 (0.3 - vertex_dist (sample_uniforms 4 1) (3/4, 3/4)) / 0.3) * 0.1 \<and>
   u_gesture (sample_uniforms 1 0) = real FIST \<and>
   v_depth (VERTEX_SHADER_lines (sample_uniforms 1 0) (3/4, 3/4) 0) =
     - (0.6 * max 0 (0.25 - vertex_dist (sample_uniforms 1 0) (3/4, 3/4))) \<and>
   v_depth (VERTEX_SHADER_scatter (sample_uniforms 2 1) (3/4, 3/4) 0) =
     sin (vertex_dist (sample_uniforms 2 1) (3/4, 3/4) * 40 - u_time (sample_uniforms 2 1) * 8) *
       (max 0 (0.4 - vertex_dist (sample_uniforms 2 1) (3/4, 3/4)) / 0.4) * 0.15"
proof -
  have g: "u_gesture (sample_uniforms 2 1) = real OPEN" "u_gesture (sample_uniforms 4 1) = real PINCH"
    "u_gesture (sample_uniforms 1 0) = real FIST"
    by (simp_all add: sample_fields OPEN_def PINCH_def FIST_def)
  have m: "0.1 < u_mask (sample_uniforms 2 1) (texCoord (3/4, 3/4))"
    "0.1 < u_mask (sample_uniforms 4 1) (texCoord (3/4, 3/4))"
    by (simp_all add: sample_fields)
  have d: "vertex_dist (sample_uniforms 2 1) (3/4, 3/4) < 0.65"
    "vertex_dist (sample_uniforms 4 1) (3/4, 3/4) < 0.5"
    using sample_dist [of 2 1 0] sample_dist [of 4 1 0] by simp_all
  from warp_falloff [of "sample_uniforms 2 1" "(3/4, 3/4)" 0]
       warp_falloff [of "sample_uniforms 4 1" "(3/4, 3/4)" 0]
       warp_falloff [of "sample_uniforms 1 0" "(3/4, 3/4)" 0] g m d
  show ?thesis
    by blast
qed

text \<open>
  The tension warp of the line mesh does not use the smooth falloff: at distance 0.075
  from a pinching hand its tint has strength \<open>(0.3 - 0.075) / 0.3 = 0.75\<close>, where
  \<open>smoothstep(0.3, 0, 0.075)\<close> is \<open>27/32\<close>.
\<close>

theorem warp_falloff_counterexample:
  "vertex_dist (sample_uniforms 4 0) (63/80, 3/4) = 3/40 \<and>
   v_color (VERTEX_SHADER_lines (sample_uniforms 4 0) (63/80, 3/4) 0) =
     add3 (baseColor 1.5 (sample_uniforms 4 0) (63/80, 3/4)) (scale3 (0.3, 0, 0.3) (3/4)) \<and>
   v_color (VERTEX_SHADER_lines (sample_uniforms 4 0) (63/80, 3/4) 0) \<noteq>
     add3 (baseColor 1.5 (sample_uniforms 4 0) (63/80, 3/4))
       (scale3 (0.3, 0, 0.3) (smoothstep 0.3 0 (vertex_dist (sample_uniforms 4 0) (63/80, 3/4))))"
proof -
  have d: "vertex_dist (sample_uniforms 4 0) (63/80, 3/4) = 3/40"
    using sample_dist [of 4 0 "3/40"] by simp
  have g: "u_gesture (sample_uniforms 4 0) = 4"
    by (simp add: sample_fields)
  have lt: "vertex_dist (sample_uniforms 4 0) (63/80, 3/4) < 0.3"
    by (simp add: d)
  have c: "v_color (VERTEX_SHADER_lines (sample_uniforms 4 0) (63/80, 3/4) 0) =
     add3 (baseColor 1.5 (sample_uniforms 4 0) (63/80, 3/4)) (scale3 (0.3, 0, 0.3) (3/4))"
    by (simp add: VERTEX_SHADER_lines_def warp_lines_pinch [OF g lt] d)
  have n: "add3 b (scale3 (0.3, 0, 0.3) (3/4)) \<noteq> add3 b (scale3 (0.3, 0, 0.3) (27/32))" for b :: vec3
    by (simp add: add3_def scale3_def)
  have s: "smoothstep 0.3 0 (vertex_dist (sample_uniforms 4 0) (63/80, 3/4)) = 27/32"
    by (simp only: d smoothstep_sample)
  have "v_color (VERTEX_SHADER_lines (sample_uniforms 4 0) (63/80, 3/4) 0) \<noteq>
     add3 (baseColor 1.5 (sample_uniforms 4 0) (63/80, 3/4))
       (scale3 (0.3, 0, 0.3) (smoothstep 0.3 0 (vertex_dist (sample_uniforms 4 0) (63/80, 3/4))))"
    unfolding s c by (rule n)
  with d c show ?thesis
    by blast
qed



section \<open>Sessions and frames\<close>

lemma render_mask_idle:
  "gesture hs = NONE \<Longrightarrow> (\<forall>i j. mask_px m i j = 0) \<Longrightarrow>
   mask_px (render_mask w h hs m) i j = 0"
  by (simp add: render_mask_def Let_def NONE_def resize_mask_def blank_mask_def)

lemma idle_initial: "idle initial_app"
  by (simp add: idle_def initial_app_def initial_hand_state_def initial_mask_def blank_mask_def)

lemma idle_step_lines: "hand_absent e \<Longrightarrow> idle a \<Longrightarrow> idle (step_lines e a)"
  by (cases e)
    (simp_all add: idle_def step_lines_def hand_absent_def predict_lines_no_hand gesture_lost
      render_mask_idle)

lemma idle_step_scatter: "hand_absent e \<Longrightarrow> idle a \<Longrightarrow> idle (step_scatter e a)"
  by (cases e)
    (simp_all add: idle_def step_scatter_def hand_absent_def predict_scatter_no_hand gesture_lost
      render_mask_idle)

lemma idle_run_lines: "list_all hand_absent es \<Longrightarrow> idle a \<Longrightarrow> idle (run_lines es a)"
  by (induction es arbitrary: a) (simp_all add: idle_step_lines)

lemma idle_run_scatter: "list_all hand_absent es \<Longrightarrow> idle a \<Longrightarrow> idle (run_scatter es a)"
  by (induction es arbitrary: a) (simp_all add: idle_step_scatter)

text \<open>
  C8. In a session whose detection cycles never find a hand, after any number of
  cycles and frames the gesture code is NONE and every pixel of the mask is 0; a
  vertex drawn with that gesture and an all-zero mask sits at its base position with
  depth 0, and its colour is gray: the dimmed luma of the source colour (the flat
  placeholder where there is no source frame) in all three channels.
\<close>

theorem hand_absent_session:
  assumes "list_all hand_absent es"
  shows "gesture (app_hand (run_lines es initial_app)) = NONE \<and>
         gesture (app_hand (run_scatter es initial_app)) = NONE \<and>
         mask_px (app_mask (run_lines es initial_app)) i j = 0 \<and>
         mask_px (app_mask (run_scatter es initial_app)) i j = 0 \<and>
         (u_gesture U = real (gesture (app_hand (run_lines es initial_app))) \<and>
          (\<forall>c. u_mask U c = 0) \<longrightarrow>
            VERTEX_SHADER_lines U uv idx =
              \<lparr>gl_Position = (fst (base_pos U uv), snd (base_pos U uv), 0),
               v_color = splat3 (gray_level U uv), v_depth = 0, v_isQuantum = isQuantum idx\<rparr>) \<and>
         (u_gesture U = real (gesture (app_hand (run_scatter es initial_app))) \<and>
          (\<forall>c. u_mask U c = 0) \<longrightarrow>
            VERTEX_SHADER_scatter U uv idx =
              \<lparr>gl_Position = (fst (base_pos U uv), snd (base_pos U uv), 0),
               v_color = splat3 (gray_level U uv), v_depth = 0, v_isQuantum = isQuantum idx,
               gl_PointSize = u_pointSize U\<rparr>)"
proof -
  have l: "idle (run_lines es initial_app)"
    using assms idle_initial by (rule idle_run_lines)
  have s: "idle (run_scatter es initial_app)"
    using assms idle_initial by (rule idle_run_scatter)
  have gl: "gesture (app_hand (run_lines es initial_app)) = NONE"
    and gs: "gesture (app_hand (run_scatter es initial_app)) = NONE"
    and ml: "mask_px (app_mask (run_lines es initial_app)) i j = 0"
    and ms: "mask_px (app_mask (run_scatter es initial_app)) i j = 0"
    using l s by (simp_all add: idle_def)
  have vl: "VERTEX_SHADER_lines U uv idx =
              \<lparr>gl_Position = (fst (base_pos U uv), snd (base_pos U uv), 0),
               v_color = splat3 (gray_level U uv), v_depth = 0, v_isQuantum = isQuantum idx\<rparr>"
    if that: "u_gesture U = real NONE \<and> (\<forall>c. u_mask U c = 0)"
  proof -
    from that have g: "u_gesture U = 0"
      by (simp add: NONE_def)
    from that have m: "u_mask U (texCoord uv) = 0"
      by blast
    show ?thesis
      by (simp add: shader_lines_none [OF g] baseColor_unrevealed [OF m] m)
  qed
  have vs: "VERTEX_SHADER_scatter U uv idx =
              \<lparr>gl_Position = (fst (base_pos U uv), snd (base_pos U uv), 0),
               v_color = splat3 (gray_level U uv), v_depth = 0, v_isQuantum = isQuantum idx,
               gl_PointSize = u_pointSize U\<rparr>"
    if that: "u_gesture U = real NONE \<and> (\<forall>c. u_mask U c = 0)"
  proof -
    from that have g: "u_gesture U = 0"
      by (simp add: NONE_def)
    from that have m: "u_mask U (texCoord uv) = 0"
      by blast
    show ?thesis
      by (simp add: shader_scatter_none [OF g] baseColor_unrevealed [OF m] m)
  qed
  show ?thesis
    unfolding gl gs ml ms using vl vs by blast
qed

theorem hand_absent_session_witness:
  "list_all hand_absent [Detect None, Frame 640 480, Detect (Some []), Frame 800 600] \<and>
   gesture (app_hand (run_lines [Detect None, Frame 640 480, Detect (Some []), Frame 800 600]
     initial_app)) = NONE \<and>
   mask_px (app_mask (run_lines [Detect None, Frame 640 480, Detect (Some []), Frame 800 600]
     initial_app)) 320 240 = 0 \<and>
   u_gesture (sample_uniforms 0 0) =
     real (gesture (app_hand (run_lines [Detect None, Frame 640 480, Detect (Some []), Frame 800 600]
       initial_app))) \<and>
   u_gesture (sample_uniforms 0 0) =
     real (gesture (app_hand (run_scatter [Detect None, Frame 640 480, Detect (Some []), Frame 800 600]
       initial_app))) \<and>
   (\<forall>c. u_mask (sample_uniforms 0 0) c = 0) \<and>
   VERTEX_SHADER_lines (sample_uniforms 0 0) (1/4, 1/4) 0 =
     \<lparr>gl_Position = (fst (base_pos (sample_uniforms 0 0) (1/4, 1/4)),
        snd (base_pos (sample_uniforms 0 0) (1/4, 1/4)), 0),
      v_color = splat3 (gray_level (sample_uniforms 0 0) (1/4, 1/4)), v_depth = 0,
      v_isQuantum = isQuantum 0\<rparr> \<and>
   VERTEX_SHADER_scatter (sample_uniforms 0 0) (1/4, 1/4) 0 =
     \<lparr>gl_Position = (fst (base_pos (sample_uniforms 0 0) (1/4, 1/4)),
        snd (base_pos (sample_uniforms 0 0) (1/4, 1/4)), 0),
      v_color = splat3 (gray_level (sample_uniforms 0 0) (1/4, 1/4)), v_depth = 0,
      v_isQuantum = isQuantum 0, gl_PointSize = u_pointSize (sample_uniforms 0 0)\<rparr>"
proof -
  have h: "list_all hand_absent [Detect None, Frame 640 480, Detect (Some []), Frame 800 600]"
    by (simp add: hand_absent_def no_hand_def)
  note t = hand_absent_session [OF h, of 320 240 "sample_uniforms 0 0" "(1/4, 1/4)" 0]
  have g: "u_gesture (sample_uniforms 0 0) =
     real (gesture (app_hand (run_lines [Detect None, Frame 640 480, Detect (Some []), Frame 800 600]
       initial_app)))"
    using t by (simp add: sample_fields NONE_def)
  have g': "u_gesture (sample_uniforms 0 0) =
     real (gesture (app_hand (run_scatter [Detect None, Frame 640 480, Detect (Some []), Frame 800 600]
       initial_app)))"
    using t by (simp add: sample_fields NONE_def)
  have m: "\<forall>c. u_mask (sample_uniforms 0 0) c = 0"
    by (simp add: sample_fields)
  from t h g g' m show ?thesis
    by blast
qed

text \<open>
  C7. The time uploaded to the shaders is the elapsed time in seconds, whatever the
  configured speed: one second after the start it is 1 at speed 0 and at speed 2.
\<close>

theorem speed_ignored:
  "u_time (render_uniforms (cfg\<lparr>speed := s\<rparr>) now startTime w h hs source maskTex) =
     (now - startTime) / 1000 \<and>
   u_time (render_uniforms (default_config\<lparr>speed := 0\<rparr>) 1000 0 w h hs source maskTex) = 1 \<and>
   u_time (render_uniforms (default_config\<lparr>speed := 2\<rparr>) 1000 0 w h hs source maskTex) = 1"
  by (simp add: render_uniforms_def Let_def)

end
